theory Spec2Isabelle
  imports Complex_Main "HOL-Library.Word"
begin

section \<open>The canvas renderer of img.js (src/canvasrenderer.js)\<close>

text \<open>
  A shallow embedding of \<^verbatim>\<open>src/canvasrenderer.js\<close>. JavaScript numbers are modelled as
  reals (no NaN, no infinities). The gradient geometry, whose properties depend on it,
  rounds the result of every arithmetic operation as double arithmetic does, with a
  rounding function that is a parameter; the other computations are exact. Pixel sizes
  of html canvases are natural numbers; the pixel data of a canvas (a
  Uint8ClampedArray) is a list of bytes.
  A thrown exception is a value of type \<open>error\<close> on the left of a sum. The callbacks of
  the \<^verbatim>\<open>async\<close> library are written in direct style, every step running to its end
  before the next starts. The html canvas, the blend functions, the filters and the
  capability table are parameters (the record \<open>env\<close>).
\<close>

subsection \<open>Errors\<close>

text \<open>
  \<open>TypeError\<close> is the error the JavaScript runtime raises when a property of
  \<^verbatim>\<open>null\<close> or \<^verbatim>\<open>undefined\<close> is read, when \<^verbatim>\<open>undefined\<close> is called, or when a non-finite
  number is given to \<^verbatim>\<open>createLinearGradient\<close>. \<open>NoSuchBlendMode m\<close> is
  \<^verbatim>\<open>new Error('No blend mode named \'' + m + '\'')\<close> of \<^verbatim>\<open>mergeManualBlend\<close>.
  \<open>ExternalFailure\<close> is whatever a filter of the external filter registry throws.
\<close>

datatype error = TypeError | NoSuchBlendMode string | ExternalFailure string

subsection \<open>Data model\<close>

text \<open>
  An html canvas: its size and its pixel data (RGBA bytes, row by row). A new canvas of
  a given size is transparent black. \<^verbatim>\<open>getImageData(0, 0, w, h)\<close> is called in this file
  only with the size of the canvas it reads (\<^verbatim>\<open>processImage\<close> and \<^verbatim>\<open>processMask\<close> pass
  \<^verbatim>\<open>canvas.width, canvas.height\<close>; \<^verbatim>\<open>mergeManualBlend\<close> runs on the canvas that
  \<^verbatim>\<open>singleLayerWithOpacity\<close> made with the size of the image canvas;
  \<^verbatim>\<open>getTransformedLayerData\<close> reads the canvas it made from the rectangle), so it is the
  whole pixel data, and \<^verbatim>\<open>putImageData(d, 0, 0)\<close> replaces it.
\<close>

type_synonym bytes = "8 word list"

record canvas =
  cwidth :: nat
  cheight :: nat
  pixels :: bytes

definition newCanvas :: "nat \<Rightarrow> nat \<Rightarrow> canvas" where
  "newCanvas w h = \<lparr>cwidth = w, cheight = h, pixels = replicate (4 * w * h) 0\<rparr>"

definition getImageData :: "canvas \<Rightarrow> bytes" where
  "getImageData c = pixels c"

definition putImageData :: "canvas \<Rightarrow> bytes \<Rightarrow> canvas" where
  "putImageData c d = c\<lparr>pixels := d\<rparr>"

text \<open>
  The state of a 2D context that this file changes: the transformation calls made
  since the context was created (or since \<^verbatim>\<open>save()\<close>), \<^verbatim>\<open>globalAlpha\<close> and
  \<^verbatim>\<open>globalCompositeOperation\<close>. What the calls do to pixels is the backend's business.
\<close>

datatype ctx_op = Translate real real | Rotate real | Scale real real

record context2d =
  calls :: "ctx_op list"
  globalAlpha :: real
  globalCompositeOperation :: string

definition newContext :: context2d where
  "newContext = \<lparr>calls = [], globalAlpha = 1, globalCompositeOperation = ''source-over''\<rparr>"

definition ctx_translate :: "context2d \<Rightarrow> real \<Rightarrow> real \<Rightarrow> context2d" where
  "ctx_translate ctx a b = ctx\<lparr>calls := calls ctx @ [Translate a b]\<rparr>"

definition ctx_rotate :: "context2d \<Rightarrow> real \<Rightarrow> context2d" where
  "ctx_rotate ctx a = ctx\<lparr>calls := calls ctx @ [Rotate a]\<rparr>"

definition ctx_scale :: "context2d \<Rightarrow> real \<Rightarrow> real \<Rightarrow> context2d" where
  "ctx_scale ctx a b = ctx\<lparr>calls := calls ctx @ [Scale a b]\<rparr>"

text \<open>The gradient object handed to \<^verbatim>\<open>fillStyle\<close>, with its colour stops.\<close>

datatype gradient =
  LinearGradient real real real real "(real \<times> string) list"
  | RadialGradient real real real real real real "(real \<times> string) list"

text \<open>
  The description of a gradient layer (\<^verbatim>\<open>layer.data\<close>): \<^verbatim>\<open>type\<close> (the empty string
  when absent), \<^verbatim>\<open>rotation\<close> and \<^verbatim>\<open>spread\<close> (\<open>None\<close> when absent), and the two colours.
\<close>

record gradientData =
  g_type :: string
  g_rotation :: "real option"
  g_spread :: "real option"
  g_startColor :: string
  g_endColor :: string

text \<open>A filter of a layer: its name in the filter registry and its options.\<close>

datatype options = Undefined | MaskOptions bytes real real nat nat | UserOptions string

record filterSpec =
  fname :: string
  foptions :: options

text \<open>
  The fields of a layer that \<^verbatim>\<open>getLayerData\<close> copies, and the layer data it builds
  from them (\<^verbatim>\<open>img, x, y\<close> added).
\<close>

record attrs =
  opacity :: real
  blendmode :: string
  tx :: real
  ty :: real
  sx :: real
  sy :: real
  rot :: real
  flip_h :: bool
  flip_v :: bool

record placement = attrs +
  img :: canvas
  img_x :: real
  img_y :: real

text \<open>
  Layers and image canvases. The kind of a layer (\<^verbatim>\<open>isPath()\<close>, \<^verbatim>\<open>isFill()\<close>, ...) is the
  constructor of its content; \<open>NoContent\<close> is a layer of none of the six kinds. An image
  carries its decoded pixels. A mask is an image canvas or \<^verbatim>\<open>null\<close>.
\<close>

datatype content =
  Path string
  | Fill string
  | Gradient gradientData
  | HtmlCanvas canvas
  | Image canvas
  | ImageCanvas icanvas
  | NoContent
and layer =
  Layer (ldata: content) (lwidth: "nat option") (lheight: "nat option") (lattrs: attrs)
    (mask: "icanvas option") (filters: "filterSpec list")
and icanvas =
  ICanvas (iwidth: nat) (iheight: nat) (layers: "layer list")

text \<open>
  The collaborators of the renderer: the raster backend (drawing an image under a
  context state onto a canvas, filling a new canvas with a colour or a gradient,
  decoding a file, and whether the context has \<^verbatim>\<open>createImageData\<close>), the table
  \<^verbatim>\<open>nativeBlendModes\<close> (a name that is not a key reads as \<^verbatim>\<open>undefined\<close>), the blend
  functions of \<^verbatim>\<open>./blend\<close> and the filters of \<^verbatim>\<open>./process\<close>. A blend function and a filter
  read their first buffer and write their second: they are given the contents of both
  and return the new contents of the second. A filter may throw. \<open>rounding\<close> is the
  rounding of the machine's double arithmetic: the double nearest to a real.
\<close>

record layerOptions =
  lo_data :: bytes
  lo_width :: real
  lo_height :: real
  lo_opacity :: real
  lo_dx :: real
  lo_dy :: real

type_synonym blend_fn = "bytes \<Rightarrow> bytes \<Rightarrow> nat \<Rightarrow> nat \<Rightarrow> layerOptions \<Rightarrow> bytes"

type_synonym filter_fn = "bytes \<Rightarrow> bytes \<Rightarrow> nat \<Rightarrow> nat \<Rightarrow> options \<Rightarrow> error + bytes"

record env =
  hasCreateImageData :: bool
  drawImage :: "context2d \<Rightarrow> canvas \<Rightarrow> real \<Rightarrow> real \<Rightarrow> canvas \<Rightarrow> bytes"
  fillColor :: "string \<Rightarrow> nat \<Rightarrow> nat \<Rightarrow> bytes"
  fillGradient :: "gradient \<Rightarrow> nat \<Rightarrow> nat \<Rightarrow> bytes"
  decodeFile :: "string \<Rightarrow> canvas"
  nativeBlendModes :: "string \<Rightarrow> bool option"
  blend :: "string \<Rightarrow> blend_fn option"
  process :: "string \<Rightarrow> filter_fn option"
  rounding :: "real \<Rightarrow> real"

text \<open>
  A step of an \<^verbatim>\<open>async\<close> pipeline, \<^verbatim>\<open>function (canvas, callback)\<close>: it is given a canvas
  or \<^verbatim>\<open>null\<close> and either throws or calls back once with a canvas or \<^verbatim>\<open>null\<close>.
  \<^verbatim>\<open>async.compose(f1, ..., fn)\<close> runs \<^verbatim>\<open>fn\<close> first and \<^verbatim>\<open>f1\<close> last.
\<close>

type_synonym stage = "canvas option \<Rightarrow> error + canvas option"

fun async_compose :: "stage list \<Rightarrow> stage" where
  "async_compose [] = (\<lambda>a. Inr a)"
| "async_compose (f # fs) =
     (\<lambda>a. case async_compose fs a of Inl e \<Rightarrow> Inl e | Inr v \<Rightarrow> f v)"

text \<open>\<^verbatim>\<open>function passThrough(canvas, callback)\<close>, lines 11-13.\<close>

definition passThrough :: stage where
  "passThrough canvas = Inr canvas"

text \<open>\<^verbatim>\<open>function createImageData(ctx, width, height)\<close>, lines 15-21.\<close>

definition createImageData :: "env \<Rightarrow> canvas \<Rightarrow> nat \<Rightarrow> nat \<Rightarrow> bytes" where
  "createImageData E c width height =
     (if hasCreateImageData E then replicate (4 * width * height) 0 else getImageData c)"

subsection \<open>Rectangles\<close>

record rect =
  rx :: real
  ry :: real
  rwidth :: real
  rheight :: real

text \<open>\<^verbatim>\<open>function rectIntersect(r1, r2)\<close>, lines 325-336.\<close>

definition rectIntersect :: "rect \<Rightarrow> rect \<Rightarrow> rect" where
  "rectIntersect r1 r2 =
     (let right1 = rx r1 + rwidth r1;
          bottom1 = ry r1 + rheight r1;
          right2 = rx r2 + rwidth r2;
          bottom2 = ry r2 + rheight r2;
          x = max (rx r1) (rx r2);
          y = max (ry r1) (ry r2);
          w = max (min right1 right2 - x) 0;
          h = max (min bottom1 bottom2 - y) 0
      in \<lparr>rx = x, ry = y, rwidth = w, rheight = h\<rparr>)"

subsection \<open>Gradient geometry\<close>

text \<open>
  The linear branch of \<^verbatim>\<open>CanvasRenderer.generateGradient\<close>, lines 146-174: the local
  variables \<^verbatim>\<open>x1, y1, x2, y2\<close> after the chain of conditionals. They stay
  \<^verbatim>\<open>undefined\<close> when no branch is taken (rotation still negative after adding 360):
  that is the result \<open>None\<close>. Every \<^verbatim>\<open>+\<close>, \<^verbatim>\<open>-\<close>, \<^verbatim>\<open>*\<close> and \<^verbatim>\<open>/\<close> of the source is
  the exact operation followed by the rounding \<open>rnd\<close>, in the order in which
  JavaScript evaluates them; comparisons and the literals are exact. With the identity
  for \<open>rnd\<close> the arithmetic is exact.
\<close>

definition linearEndpoints :: "(real \<Rightarrow> real) \<Rightarrow> real \<Rightarrow> real \<Rightarrow> real
    \<Rightarrow> (real \<times> real \<times> real \<times> real) option" where
  "linearEndpoints rnd width height rotation =
     (let rotateDegrees = (if rotation < 0 then rnd (rotation + 360) else rotation) in
      if 0 \<le> rotateDegrees \<and> rotateDegrees < 45 then
        (let x1 = 0;
             y1 = rnd (rnd (rnd (height / 2) * rnd (45 - rotateDegrees)) / 45);
             x2 = width;
             y2 = rnd (height - y1)
         in Some (x1, y1, x2, y2))
      else if 45 \<le> rotateDegrees \<and> rotateDegrees < 135 then
        (let x1 = rnd (rnd (width * rnd (rotateDegrees - 45)) / rnd (135 - 45));
             y1 = 0;
             x2 = rnd (width - x1);
             y2 = height
         in Some (x1, y1, x2, y2))
      else if 135 \<le> rotateDegrees \<and> rotateDegrees < 225 then
        (let x1 = width;
             y1 = rnd (rnd (height * rnd (rotateDegrees - 135)) / rnd (225 - 135));
             x2 = 0;
             y2 = rnd (height - y1)
         in Some (x1, y1, x2, y2))
      else if 225 \<le> rotateDegrees \<and> rotateDegrees < 315 then
        (let x1 = rnd (width * rnd (1 - rnd (rnd (rotateDegrees - 225) / rnd (315 - 225))));
             y1 = height;
             x2 = rnd (width - x1);
             y2 = 0
         in Some (x1, y1, x2, y2))
      else if 315 \<le> rotateDegrees then
        (let x1 = 0;
             y1 = rnd (height
                       - rnd (rnd (rnd (height / 2) * rnd (rotateDegrees - 315))
                              / rnd (360 - 315)));
             x2 = width;
             y2 = rnd (height - y1)
         in Some (x1, y1, x2, y2))
      else None)"

text \<open>
  \<^verbatim>\<open>CanvasRenderer.generateGradient\<close>, lines 127-186. \<open>gradientOf\<close> is the gradient
  object \<^verbatim>\<open>grd\<close> with its two colour stops; \<^verbatim>\<open>createLinearGradient\<close> refuses
  \<^verbatim>\<open>undefined\<close> endpoints with a TypeError.
\<close>

definition gradientOf :: "(real \<Rightarrow> real) \<Rightarrow> nat \<Rightarrow> nat \<Rightarrow> gradientData \<Rightarrow> error + gradient" where
  "gradientOf rnd width height data =
     (let cx = rnd (real width / 2);
          cy = rnd (real height / 2);
          type = (if g_type data = [] then ''linear'' else g_type data);
          rotateDegrees = (case g_rotation data of None \<Rightarrow> 0 | Some r \<Rightarrow> r);
          stops = [(case g_spread data of None \<Rightarrow> 0 | Some s \<Rightarrow> s, g_startColor data),
                   (1, g_endColor data)]
      in if type = ''radial'' then
           Inr (RadialGradient cx cy 0 cx cy (rnd (min (real width) (real height) / 2)) stops)
         else
           (case linearEndpoints rnd (real width) (real height) rotateDegrees of
              None \<Rightarrow> Inl TypeError
            | Some (x1, y1, x2, y2) \<Rightarrow> Inr (LinearGradient x1 y1 x2 y2 stops)))"

definition generateGradient :: "env \<Rightarrow> icanvas \<Rightarrow> layer \<Rightarrow> gradientData \<Rightarrow> stage" where
  "generateGradient E iCanvas layer data =
     (\<lambda>_. let width = (case lwidth layer of Some w \<Rightarrow> w | None \<Rightarrow> iwidth iCanvas);
               height = (case lheight layer of Some h \<Rightarrow> h | None \<Rightarrow> iheight iCanvas)
           in case gradientOf (rounding E) width height data of
                Inl e \<Rightarrow> Inl e
              | Inr grd \<Rightarrow>
                  Inr (Some \<lparr>cwidth = width, cheight = height,
                             pixels = fillGradient E grd width height\<rparr>))"

text \<open>\<^verbatim>\<open>CanvasRenderer.generateColor\<close>, lines 111-124.\<close>

definition generateColor :: "env \<Rightarrow> icanvas \<Rightarrow> layer \<Rightarrow> string \<Rightarrow> stage" where
  "generateColor E iCanvas layer color =
     (\<lambda>_. let width = (case lwidth layer of Some w \<Rightarrow> w | None \<Rightarrow> iwidth iCanvas);
               height = (case lheight layer of Some h \<Rightarrow> h | None \<Rightarrow> iheight iCanvas)
           in Inr (Some \<lparr>cwidth = width, cheight = height,
                        pixels = fillColor E color width height\<rparr>))"

text \<open>\<^verbatim>\<open>loadFile\<close>, \<^verbatim>\<open>loadHtmlCanvas\<close> and \<^verbatim>\<open>loadImage\<close>, lines 65-108.\<close>

definition loadFile :: "env \<Rightarrow> string \<Rightarrow> stage" where
  "loadFile E src = (\<lambda>_. Inr (Some (decodeFile E src)))"

definition loadHtmlCanvas :: "canvas \<Rightarrow> stage" where
  "loadHtmlCanvas canvas = (\<lambda>_. Inr (Some canvas))"

definition loadImage :: "canvas \<Rightarrow> stage" where
  "loadImage picture =
     (\<lambda>_. Inr (Some \<lparr>cwidth = cwidth picture, cheight = cheight picture,
                      pixels = pixels picture\<rparr>))"

subsection \<open>Filters\<close>

text \<open>
  \<^verbatim>\<open>CanvasRenderer.processImage\<close>, lines 193-219. The loop carries the two buffers
  \<^verbatim>\<open>inData\<close> and \<^verbatim>\<open>outData\<close> and swaps them from the second filter on; a name that is
  not in the registry is a call of \<^verbatim>\<open>undefined\<close>.
\<close>

fun filterLoop :: "env \<Rightarrow> nat \<Rightarrow> nat \<Rightarrow> nat \<Rightarrow> filterSpec list \<Rightarrow> bytes \<times> bytes
    \<Rightarrow> error + bytes \<times> bytes" where
  "filterLoop E width height i [] (inData, outData) = Inr (inData, outData)"
| "filterLoop E width height i (flt # rest) (inData, outData) =
     (let (inData1, outData1) = (if i > 0 then (outData, inData) else (inData, outData))
      in case process E (fname flt) of
           None \<Rightarrow> Inl TypeError
         | Some f \<Rightarrow>
             (case f inData1 outData1 width height (foptions flt) of
                Inl e \<Rightarrow> Inl e
              | Inr written \<Rightarrow> filterLoop E width height (i + 1) rest (inData1, written)))"

definition processImage :: "env \<Rightarrow> filterSpec list \<Rightarrow> stage" where
  "processImage E filters' =
     (if length filters' = 0 then passThrough
      else (\<lambda>canvas.
        case canvas of
          None \<Rightarrow> Inl TypeError
        | Some c \<Rightarrow>
            (let width = cwidth c;
                 height = cheight c;
                 inData = getImageData c;
                 outData = createImageData E c width height
             in case filterLoop E width height 0 filters' (inData, outData) of
                  Inl e \<Rightarrow> Inl e
                | Inr (inData', outData') \<Rightarrow> Inr (Some (putImageData c outData')))))"

subsection \<open>Layer transformations\<close>

text \<open>
  Modelled from the spec: \<^verbatim>\<open>util.radians\<close> and \<^verbatim>\<open>util.transform\<close> are used by this file
  but defined elsewhere (the file names \<^verbatim>\<open>util\<close> without requiring it; it is taken to
  be the utility module). The spec gives rotations in degrees and describes the
  transform utility as composing translate, rotate and scale and applying the result
  to a point. A matrix \<open>(a, b, c, d, e, f)\<close> maps \<open>(x, y)\<close> to
  \<open>(a x + c y + e, b x + d y + f)\<close>; each call composes on the right, as the calls of
  a 2D context do.
\<close>

definition radians :: "real \<Rightarrow> real" where
  "radians degrees = degrees * pi / 180"

type_synonym matrix = "real \<times> real \<times> real \<times> real \<times> real \<times> real"

definition m_identity :: matrix where
  "m_identity = (1, 0, 0, 1, 0, 0)"

fun m_multiply :: "matrix \<Rightarrow> matrix \<Rightarrow> matrix" where
  "m_multiply (a1, b1, c1, d1, e1, f1) (a2, b2, c2, d2, e2, f2) =
     (a1 * a2 + c1 * b2, b1 * a2 + d1 * b2,
      a1 * c2 + c1 * d2, b1 * c2 + d1 * d2,
      a1 * e2 + c1 * f2 + e1, b1 * e2 + d1 * f2 + f1)"

definition m_translate :: "matrix \<Rightarrow> real \<Rightarrow> real \<Rightarrow> matrix" where
  "m_translate m x y = m_multiply m (1, 0, 0, 1, x, y)"

definition m_rotate :: "matrix \<Rightarrow> real \<Rightarrow> matrix" where
  "m_rotate m degrees =
     m_multiply m (cos (radians degrees), sin (radians degrees),
                   - sin (radians degrees), cos (radians degrees), 0, 0)"

definition m_scale :: "matrix \<Rightarrow> real \<Rightarrow> real \<Rightarrow> matrix" where
  "m_scale m x y = m_multiply m (x, 0, 0, y, 0, 0)"

fun transformPoint :: "matrix \<Rightarrow> real \<times> real \<Rightarrow> real \<times> real" where
  "transformPoint (a, b, c, d, e, f) (x, y) = (a * x + c * y + e, b * x + d * y + f)"

text \<open>\<^verbatim>\<open>function transformLayer(ctx, iCanvas, layer)\<close>, lines 257-279.\<close>

definition transformLayer :: "context2d \<Rightarrow> icanvas \<Rightarrow> placement \<Rightarrow> context2d" where
  "transformLayer ctx iCanvas layer =
     (let translate = (tx layer \<noteq> 0 \<or> ty layer \<noteq> 0);
          scale = (sx layer \<noteq> 1 \<or> sy layer \<noteq> 1);
          rotate = (rot layer \<noteq> 0);
          flip = (flip_h layer \<or> flip_v layer);
          ctx1 = (if translate then ctx_translate ctx (tx layer) (ty layer) else ctx)
      in if scale \<or> rotate \<or> flip then
           (let ctx2 = ctx_translate ctx1 (real (iwidth iCanvas) / 2) (real (iheight iCanvas) / 2);
                ctx3 = (if rotate then ctx_rotate ctx2 (radians (rot layer)) else ctx2);
                ctx4 = (if scale then ctx_scale ctx3 (sx layer) (sy layer) else ctx3);
                ctx5 = (if flip
                        then ctx_scale ctx4 (if flip_h layer then - 1 else 1)
                                            (if flip_v layer then - 1 else 1)
                        else ctx4)
            in ctx_translate ctx5 (- real (iwidth iCanvas) / 2) (- real (iheight iCanvas) / 2))
         else ctx1)"

text \<open>
  \<^verbatim>\<open>function transformRect(iCanvas, layer)\<close>, lines 283-322. The loop over the four
  corners keeps \<^verbatim>\<open>minx, miny, maxx, maxy\<close>, which the first corner sets.
\<close>

fun boundsLoop :: "matrix \<Rightarrow> nat \<Rightarrow> (real \<times> real) list \<Rightarrow> real \<times> real \<times> real \<times> real
    \<Rightarrow> real \<times> real \<times> real \<times> real" where
  "boundsLoop t i [] (minx, miny, maxx, maxy) = (minx, miny, maxx, maxy)"
| "boundsLoop t i (p # ps) (minx, miny, maxx, maxy) =
     (let pt = transformPoint t p
      in if i = 0 then boundsLoop t (i + 1) ps (fst pt, snd pt, fst pt, snd pt)
         else
           (let minx1 = (if fst pt < minx then fst pt else minx);
                maxx1 = (if fst pt > maxx then fst pt else maxx);
                miny1 = (if snd pt < miny then snd pt else miny);
                maxy1 = (if snd pt > maxy then snd pt else maxy)
            in boundsLoop t (i + 1) ps (minx1, miny1, maxx1, maxy1)))"

definition transformRect :: "icanvas \<Rightarrow> placement \<Rightarrow> rect" where
  "transformRect iCanvas layer =
     (let width = real (cwidth (img layer));
          height = real (cheight (img layer));
          points = [(0, 0), (width, 0), (0, height), (width, height)];
          t0 = m_identity;
          t1 = m_translate t0 ((real (iwidth iCanvas) - width) / 2)
                              ((real (iheight iCanvas) - height) / 2);
          t2 = m_translate t1 (tx layer) (ty layer);
          t3 = m_translate t2 (width / 2) (height / 2);
          t4 = m_rotate t3 (rot layer);
          t5 = m_scale t4 (sx layer) (sy layer);
          t6 = m_translate t5 (- width / 2) (- height / 2)
      in case boundsLoop t6 0 points (0, 0, 0, 0) of
           (minx, miny, maxx, maxy) \<Rightarrow>
             \<lparr>rx = minx, ry = miny, rwidth = maxx - minx, rheight = maxy - miny\<rparr>)"

text \<open>\<^verbatim>\<open>function calcLayerRect(iCanvas, layer)\<close>, lines 340-347.\<close>

definition calcLayerRect :: "icanvas \<Rightarrow> placement \<Rightarrow> rect" where
  "calcLayerRect iCanvas layer =
     (let rect0 = transformRect iCanvas layer;
          rect1 = rectIntersect rect0
                    \<lparr>rx = 0, ry = 0, rwidth = real (iwidth iCanvas),
                     rheight = real (iheight iCanvas)\<rparr>
      in \<lparr>rx = of_int (round (rx rect1)),
          ry = of_int (round (ry rect1)),
          rwidth = of_int (ceiling (rwidth rect1)),
          rheight = of_int (ceiling (rheight rect1))\<rparr>)"

text \<open>\<^verbatim>\<open>function getTransformedLayerData(iCanvas, layer, rect)\<close>, lines 350-359.\<close>

definition getTransformedLayerData :: "env \<Rightarrow> icanvas \<Rightarrow> placement \<Rightarrow> rect \<Rightarrow> bytes" where
  "getTransformedLayerData E iCanvas layer rect =
     (let canvas = newCanvas (nat (floor (rwidth rect))) (nat (floor (rheight rect)));
          ctx0 = ctx_translate newContext (- rx rect) (- ry rect);
          ctx1 = transformLayer ctx0 iCanvas layer;
          canvas1 = putImageData canvas
                      (drawImage E ctx1 (img layer) (img_x layer) (img_y layer) canvas)
      in getImageData canvas1)"

subsection \<open>Layer blending\<close>

text \<open>
  \<^verbatim>\<open>CanvasRenderer.mergeManualBlend\<close>, lines 366-394. The loop carries
  \<^verbatim>\<open>baseData\<close> and \<^verbatim>\<open>outData\<close>; \<open>i\<close> is the index of the layer in the list.
\<close>

fun manualBlendLoop :: "env \<Rightarrow> icanvas \<Rightarrow> nat \<Rightarrow> placement list \<Rightarrow> bytes \<times> bytes
    \<Rightarrow> error + bytes \<times> bytes" where
  "manualBlendLoop E iCanvas i [] (baseData, outData) = Inr (baseData, outData)"
| "manualBlendLoop E iCanvas i (layer # rest) (baseData, outData) =
     (let rect = calcLayerRect iCanvas layer
      in if rwidth rect > 0 \<and> rheight rect > 0 then
           (let (baseData1, outData1) =
                  (if i > 0 then (outData, baseData) else (baseData, outData));
                blendData = getTransformedLayerData E iCanvas layer rect;
                layerOptions = \<lparr>lo_data = blendData, lo_width = rwidth rect,
                                lo_height = rheight rect, lo_opacity = opacity layer,
                                lo_dx = rx rect, lo_dy = ry rect\<rparr>
            in case blend E (blendmode layer) of
                 None \<Rightarrow> Inl (NoSuchBlendMode (blendmode layer))
               | Some f \<Rightarrow>
                   manualBlendLoop E iCanvas (i + 1) rest
                     (baseData1,
                      f baseData1 outData1 (iwidth iCanvas) (iheight iCanvas) layerOptions))
         else manualBlendLoop E iCanvas (i + 1) rest (baseData, outData))"

definition mergeManualBlend :: "env \<Rightarrow> icanvas \<Rightarrow> placement list \<Rightarrow> stage" where
  "mergeManualBlend E iCanvas layerData =
     (\<lambda>canvas.
        case canvas of
          None \<Rightarrow> Inl TypeError
        | Some c \<Rightarrow>
            (let width = iwidth iCanvas;
                 height = iheight iCanvas;
                 baseData = getImageData c;
                 outData = createImageData E c width height
             in case manualBlendLoop E iCanvas 0 layerData (baseData, outData) of
                  Inl e \<Rightarrow> Inl e
                | Inr (baseData', outData') \<Rightarrow> Inr (Some (putImageData c outData'))))"

text \<open>\<^verbatim>\<open>CanvasRenderer.singleLayerWithOpacity\<close>, lines 398-413.\<close>

definition singleLayerWithOpacity :: "env \<Rightarrow> icanvas \<Rightarrow> placement \<Rightarrow> canvas" where
  "singleLayerWithOpacity E iCanvas layer =
     (let canvas = newCanvas (iwidth iCanvas) (iheight iCanvas);
          ctx1 = transformLayer newContext iCanvas layer;
          ctx2 = (if opacity layer \<noteq> 1 then ctx1\<lparr>globalAlpha := opacity layer\<rparr> else ctx1)
      in putImageData canvas
           (drawImage E ctx2 (img layer) (img_x layer) (img_y layer) canvas))"

text \<open>
  \<^verbatim>\<open>CanvasRenderer.mergeNativeBlend\<close>, lines 417-436. Every layer is drawn between
  \<^verbatim>\<open>save()\<close> and \<^verbatim>\<open>restore()\<close>, so each starts from the context's initial state.
\<close>

definition nativeDraw :: "env \<Rightarrow> icanvas \<Rightarrow> placement \<Rightarrow> canvas \<Rightarrow> canvas" where
  "nativeDraw E iCanvas layer canvas =
     (let ctx1 = transformLayer newContext iCanvas layer;
          ctx2 = (if opacity layer \<noteq> 1 then ctx1\<lparr>globalAlpha := opacity layer\<rparr> else ctx1);
          ctx3 = (if blendmode layer \<noteq> ''source-over''
                  then ctx2\<lparr>globalCompositeOperation := blendmode layer\<rparr> else ctx2)
      in putImageData canvas
           (drawImage E ctx3 (img layer) (img_x layer) (img_y layer) canvas))"

definition mergeNativeBlend :: "env \<Rightarrow> icanvas \<Rightarrow> placement list \<Rightarrow> stage" where
  "mergeNativeBlend E iCanvas layerData =
     (\<lambda>canvas.
        case canvas of
          None \<Rightarrow> Inl TypeError
        | Some c \<Rightarrow> Inr (Some (fold (nativeDraw E iCanvas) layerData c)))"

text \<open>
  \<^verbatim>\<open>CanvasRenderer.merge\<close>, lines 439-472. An entry of \<^verbatim>\<open>renderPipe\<close> is the closure
  that returns the base canvas, or \<^verbatim>\<open>mergeNativeBlend(iCanvas, currentList)\<close>, or
  \<^verbatim>\<open>mergeManualBlend(iCanvas, currentList)\<close>; \<open>pipeStage\<close> is the function an entry stands
  for. \<^verbatim>\<open>unshift\<close> puts an entry at the front. The loop runs over
  \<^verbatim>\<open>layerData[1], layerData[2], ...\<close>; its test \<^verbatim>\<open>i === layerData.length - 1\<close> holds
  at the last of them. \<^verbatim>\<open>currentList\<close> is assigned before it is first read.
\<close>

datatype pipeEntry = Seed canvas | NativeRun "placement list" | ManualRun "placement list"

fun pipeStage :: "env \<Rightarrow> icanvas \<Rightarrow> pipeEntry \<Rightarrow> stage" where
  "pipeStage E iCanvas (Seed canvas) = (\<lambda>_. Inr (Some canvas))"
| "pipeStage E iCanvas (NativeRun currentList) = mergeNativeBlend E iCanvas currentList"
| "pipeStage E iCanvas (ManualRun currentList) = mergeManualBlend E iCanvas currentList"

record mergeState =
  useNative :: "bool option"
  currentList :: "placement list"
  renderPipe :: "pipeEntry list"

definition pushList :: "mergeState \<Rightarrow> mergeState" where
  "pushList st =
     (case useNative st of
        None \<Rightarrow> st
      | Some native \<Rightarrow>
          st\<lparr>renderPipe :=
               (if native then NativeRun (currentList st) else ManualRun (currentList st))
               # renderPipe st\<rparr>)"

fun mergeLoop :: "env \<Rightarrow> placement list \<Rightarrow> mergeState \<Rightarrow> mergeState" where
  "mergeLoop E [] st = st"
| "mergeLoop E (layer # rest) st =
     (let mode = blendmode layer;
          st1 = (if useNative st = None \<or> useNative st \<noteq> nativeBlendModes E mode
                 then (pushList st)\<lparr>currentList := []\<rparr> else st);
          st2 = st1\<lparr>currentList := currentList st1 @ [layer]\<rparr>;
          st3 = st2\<lparr>useNative := nativeBlendModes E mode\<rparr>;
          st4 = (if rest = [] then pushList st3 else st3)
      in mergeLoop E rest st4)"

definition mergePipe :: "env \<Rightarrow> canvas \<Rightarrow> placement list \<Rightarrow> pipeEntry list" where
  "mergePipe E canvas rest =
     renderPipe (mergeLoop E rest
       \<lparr>useNative = None, currentList = [], renderPipe = [Seed canvas]\<rparr>)"

definition merge :: "env \<Rightarrow> icanvas \<Rightarrow> placement list \<Rightarrow> error + canvas option" where
  "merge E iCanvas layerData =
     (case layerData of
        [] \<Rightarrow> Inl TypeError
      | layer # rest \<Rightarrow>
          (let canvas = singleLayerWithOpacity E iCanvas layer
           in async_compose (map (pipeStage E iCanvas) (mergePipe E canvas rest)) None))"

text \<open>
  \<^verbatim>\<open>CanvasRenderer.composite\<close>, lines 474-485: the value given to \<^verbatim>\<open>callback\<close>
  (\<open>None\<close> is \<^verbatim>\<open>null\<close>), or the error thrown.
\<close>

definition composite :: "env \<Rightarrow> icanvas \<Rightarrow> placement list \<Rightarrow> error + canvas option" where
  "composite E iCanvas layerData =
     (if length layerData = 0 then Inr None
      else if length layerData = 1 then
        Inr (Some (singleLayerWithOpacity E iCanvas (layerData ! 0)))
      else merge E iCanvas layerData)"

text \<open>
  \<^verbatim>\<open>function getLayerData(iCanvas, layerImages)\<close>, lines 489-507: the loop over
  \<^verbatim>\<open>layerImages\<close>, with \<^verbatim>\<open>iCanvas.layers[i]\<close> beside it. Reading a field of a
  \<^verbatim>\<open>null\<close> image or of a missing layer is a TypeError.
\<close>

fun getLayerDataLoop :: "icanvas \<Rightarrow> layer list \<Rightarrow> canvas option list \<Rightarrow> error + placement list" where
  "getLayerDataLoop iCanvas ls [] = Inr []"
| "getLayerDataLoop iCanvas ls (None # images) = Inl TypeError"
| "getLayerDataLoop iCanvas [] (Some layerImg # images) = Inl TypeError"
| "getLayerDataLoop iCanvas (layer # ls) (Some layerImg # images) =
     (let x = (real (iwidth iCanvas) - real (cwidth layerImg)) / 2;
          y = (real (iheight iCanvas) - real (cheight layerImg)) / 2;
          d = \<lparr>opacity = opacity (lattrs layer),
               blendmode = blendmode (lattrs layer),
               tx = tx (lattrs layer), ty = ty (lattrs layer),
               sx = sx (lattrs layer), sy = sy (lattrs layer),
               rot = rot (lattrs layer),
               flip_h = flip_h (lattrs layer), flip_v = flip_v (lattrs layer),
               img = layerImg, img_x = x, img_y = y\<rparr>
      in case getLayerDataLoop iCanvas ls images of
           Inl e \<Rightarrow> Inl e
         | Inr layerData \<Rightarrow> Inr (d # layerData))"

definition getLayerData :: "icanvas \<Rightarrow> canvas option list \<Rightarrow> error + placement list" where
  "getLayerData iCanvas layerImages = getLayerDataLoop iCanvas (layers iCanvas) layerImages"

subsection \<open>The layer pipeline and the top level\<close>

text \<open>
  The callbacks of the source are written in direct style: a function returns what it
  hands to its callback, or the error it throws. \<^verbatim>\<open>async.map\<close> runs the layers in
  order and collects their images in order; \<open>sequence\<close> is its result, the first
  failure or the list of images.
\<close>

fun sequence :: "(error + 'a) list \<Rightarrow> error + 'a list" where
  "sequence [] = Inr []"
| "sequence (r # rs) =
     (case r of
        Inl e \<Rightarrow> Inl e
      | Inr v \<Rightarrow> (case sequence rs of Inl e \<Rightarrow> Inl e | Inr vs \<Rightarrow> Inr (v # vs)))"

text \<open>
  What \<^verbatim>\<open>CanvasRenderer.render\<close> does with its callback: it calls it once with a canvas
  or \<^verbatim>\<open>null\<close>, or, when no callback was given, it calls nothing.
\<close>

datatype delivery = NotCalled | Called "canvas option"

text \<open>
  \<^verbatim>\<open>CanvasRenderer.render\<close> (lines 510-517), \<^verbatim>\<open>CanvasRenderer.renderBW\<close> (lines
  520-529), \<^verbatim>\<open>CanvasRenderer.processMask\<close> (lines 222-239), \<^verbatim>\<open>processLayers\<close>
  (lines 243-251), and \<^verbatim>\<open>CanvasRenderer.load\<close> with \<^verbatim>\<open>loadImageCanvas\<close> (lines 48-62
  and 89-95). They call each other: a mask and a nested image canvas are rendered by
  \<^verbatim>\<open>render\<close>. The third argument of \<open>render\<close> says whether a callback is given;
  \<^verbatim>\<open>renderBW\<close> and \<^verbatim>\<open>loadImageCanvas\<close> give one, so \<open>NotCalled\<close> does not reach them.
  \<^verbatim>\<open>processMask(mask)\<close> reads \<^verbatim>\<open>mask.layers\<close> when it is called, while
  \<^verbatim>\<open>processLayers\<close> builds the pipeline, and returns the step of the pipeline;
  the step sets the size of the mask to the size of the canvas it is given.
  \<^verbatim>\<open>load\<close> returns \<^verbatim>\<open>undefined\<close> (\<open>None\<close>) for a layer of no known kind, which
  \<^verbatim>\<open>async.compose\<close> then fails to call.
\<close>

text \<open>
  Modelled from the spec: the method \<^verbatim>\<open>iCanvas.render\<close> that \<^verbatim>\<open>loadImageCanvas\<close> calls
  on a nested image canvas is defined elsewhere; the spec has the nested canvas
  rendered by the top-level render and its result used as the buffer. Everything else
  below is from the source.
\<close>

function (sequential) render :: "env \<Rightarrow> icanvas \<Rightarrow> bool \<Rightarrow> error + delivery"
  and renderBW :: "env \<Rightarrow> icanvas \<Rightarrow> error + canvas option"
  and processMask :: "env \<Rightarrow> icanvas option \<Rightarrow> error + stage"
  and processLayers :: "env \<Rightarrow> icanvas \<Rightarrow> layer \<Rightarrow> error + canvas option"
  and load :: "env \<Rightarrow> icanvas \<Rightarrow> layer \<Rightarrow> stage option"
where
  "render E iCanvas callback =
     (case sequence (map (processLayers E iCanvas) (layers iCanvas)) of
        Inl e \<Rightarrow> Inl e
      | Inr layerImages \<Rightarrow>
          if callback then
            (case getLayerData iCanvas layerImages of
               Inl e \<Rightarrow> Inl e
             | Inr layerData \<Rightarrow>
                 (case composite E iCanvas layerData of
                    Inl e \<Rightarrow> Inl e
                  | Inr canvas \<Rightarrow> Inr (Called canvas)))
          else Inr NotCalled)"
| "renderBW E iCanvas =
     (case render E iCanvas True of
        Inl e \<Rightarrow> Inl e
      | Inr NotCalled \<Rightarrow> Inr None
      | Inr (Called canvas) \<Rightarrow>
          (case canvas of
             None \<Rightarrow> Inl TypeError
           | Some c \<Rightarrow>
               processImage E [\<lparr>fname = ''luminancebw'', foptions = Undefined\<rparr>] canvas))"
| "processMask E None = Inl TypeError"
| "processMask E (Some m) =
     (if length (layers m) = 0 then Inr passThrough
      else Inr (\<lambda>canvas.
        case canvas of
          None \<Rightarrow> Inl TypeError
        | Some cv \<Rightarrow>
            (case renderBW E (ICanvas (cwidth cv) (cheight cv) (layers m)) of
               Inl e \<Rightarrow> Inl e
             | Inr None \<Rightarrow> Inl TypeError
             | Inr (Some c) \<Rightarrow>
                 (let data = getImageData c;
                      maskFilter = \<lparr>fname = ''mask'',
                                    foptions = MaskOptions data 0 0 (cwidth c) (cheight c)\<rparr>
                  in processImage E [maskFilter] canvas))))"
| "processLayers E iCanvas layer =
     (let f1 = processImage E (filters layer)
      in case processMask E (mask layer) of
           Inl e \<Rightarrow> Inl e
         | Inr f2 \<Rightarrow>
             (case load E iCanvas layer of
                None \<Rightarrow> Inl TypeError
              | Some f3 \<Rightarrow> async_compose [f1, f2, f3] None))"
| "load E iCanvas layer =
     (case ldata layer of
        Path src \<Rightarrow> Some (loadFile E src)
      | Fill color \<Rightarrow> Some (generateColor E iCanvas layer color)
      | Gradient data \<Rightarrow> Some (generateGradient E iCanvas layer data)
      | HtmlCanvas canvas \<Rightarrow> Some (loadHtmlCanvas canvas)
      | Image picture \<Rightarrow> Some (loadImage picture)
      | ImageCanvas nested \<Rightarrow>
          Some (\<lambda>_. case render E nested True of
                       Inl e \<Rightarrow> Inl e
                     | Inr NotCalled \<Rightarrow> Inr None
                     | Inr (Called canvas) \<Rightarrow> Inr canvas)
      | NoContent \<Rightarrow> None)"
  by pat_completeness auto
termination
proof (relation "measure (\<lambda>x. case x of
     Inl (Inl (E, ic, cb)) \<Rightarrow> 4 * size ic + 1
   | Inl (Inr (E, ic)) \<Rightarrow> 4 * size ic + 2
   | Inr (Inl (E, m)) \<Rightarrow> (case m of None \<Rightarrow> 0 | Some ic \<Rightarrow> 4 * size ic + 3)
   | Inr (Inr (Inl (E, ic, l))) \<Rightarrow> 4 * size l
   | Inr (Inr (Inr (E, ic, l))) \<Rightarrow> 4 * size l - 1)", goal_cases)
  case 1
  show ?case by simp
next
  case (2 E iCanvas callback x)
  then have "size x \<le> size_list size (layers iCanvas)"
    by (simp add: size_list_estimation')
  then show ?case by (cases iCanvas) simp
next
  case 3
  show ?case by simp
next
  case (4 E m x x2)
  show ?case by (cases m) simp
next
  case (5 E iCanvas layer x)
  show ?case by (cases layer; cases "mask layer") auto
next
  case (6 E iCanvas layer x b)
  show ?case by (cases layer) simp
next
  case (7 E iCanvas layer x6)
  then show ?case by (cases layer) simp
qed

declare render.simps [simp del] renderBW.simps [simp del] processLayers.simps [simp del]
  load.simps [simp del]

subsection \<open>Notions used to state the properties\<close>

text \<open>
  The calls that \<^verbatim>\<open>transformLayer\<close> makes between its two translations by the centre
  of the canvas.
\<close>

definition pivotGroup :: "icanvas \<Rightarrow> placement \<Rightarrow> ctx_op list" where
  "pivotGroup iCanvas layer =
     [Translate (real (iwidth iCanvas) / 2) (real (iheight iCanvas) / 2)]
     @ (if rot layer \<noteq> 0 then [Rotate (radians (rot layer))] else [])
     @ (if sx layer \<noteq> 1 \<or> sy layer \<noteq> 1 then [Scale (sx layer) (sy layer)] else [])
     @ (if flip_h layer \<or> flip_v layer
        then [Scale (if flip_h layer then - 1 else 1) (if flip_v layer then - 1 else 1)]
        else [])
     @ [Translate (- real (iwidth iCanvas) / 2) (- real (iheight iCanvas) / 2)]"

text \<open>
  The matrix of a sequence of context calls, each composed on the right of the
  current matrix as the 2D context does.
\<close>

fun applyCall :: "matrix \<Rightarrow> ctx_op \<Rightarrow> matrix" where
  "applyCall m (Translate x y) = m_multiply m (1, 0, 0, 1, x, y)"
| "applyCall m (Rotate a) = m_multiply m (cos a, sin a, - sin a, cos a, 0, 0)"
| "applyCall m (Scale x y) = m_multiply m (x, 0, 0, y, 0, 0)"

definition ctxMatrix :: "ctx_op list \<Rightarrow> matrix" where
  "ctxMatrix ops = foldl applyCall m_identity ops"

text \<open>
  The spec's runs: \<open>capabilityRuns key xs\<close> cuts \<open>xs\<close> into its maximal contiguous
  groups of equal key, in order, each with its key. For the blend compositor the key
  of a placement is the entry of its blend mode in the capability table.
\<close>

fun joinRun :: "'k \<times> 'a list \<Rightarrow> ('k \<times> 'a list) list \<Rightarrow> ('k \<times> 'a list) list" where
  "joinRun (k, xs) [] = [(k, xs)]"
| "joinRun (k, xs) ((k', ys) # runs) =
     (if k = k' then (k', xs @ ys) # runs else (k, xs) # (k', ys) # runs)"

fun capabilityRuns :: "('a \<Rightarrow> 'k) \<Rightarrow> 'a list \<Rightarrow> ('k \<times> 'a list) list" where
  "capabilityRuns key [] = []"
| "capabilityRuns key (x # xs) = joinRun (key x, [x]) (capabilityRuns key xs)"

definition capability :: "env \<Rightarrow> placement \<Rightarrow> bool option" where
  "capability E layer = nativeBlendModes E (blendmode layer)"

text \<open>
  The pipeline entry of a run (none when the key is \<^verbatim>\<open>undefined\<close>), the placements of
  an entry, and one step of running a pipeline: an error stops it, otherwise the entry
  or the run is applied to the canvas so far.
\<close>

fun runEntry :: "bool option \<times> placement list \<Rightarrow> pipeEntry list" where
  "runEntry (None, run) = []"
| "runEntry (Some native, run) = [if native then NativeRun run else ManualRun run]"

definition runEntries :: "(bool option \<times> placement list) list \<Rightarrow> pipeEntry list" where
  "runEntries runs = concat (map runEntry runs)"

fun entryLayers :: "pipeEntry \<Rightarrow> placement list" where
  "entryLayers (Seed canvas) = []"
| "entryLayers (NativeRun run) = run"
| "entryLayers (ManualRun run) = run"

definition entryStep :: "env \<Rightarrow> icanvas \<Rightarrow> error + canvas option \<Rightarrow> pipeEntry
    \<Rightarrow> error + canvas option" where
  "entryStep E iCanvas acc entry =
     (case acc of Inl e \<Rightarrow> Inl e | Inr canvas \<Rightarrow> pipeStage E iCanvas entry canvas)"

definition runStep :: "env \<Rightarrow> icanvas \<Rightarrow> error + canvas option
    \<Rightarrow> bool option \<times> placement list \<Rightarrow> error + canvas option" where
  "runStep E iCanvas acc r =
     (case acc of
        Inl e \<Rightarrow> Inl e
      | Inr canvas \<Rightarrow>
          (case fst r of
             None \<Rightarrow> Inr canvas
           | Some native \<Rightarrow>
               if native then mergeNativeBlend E iCanvas (snd r) canvas
               else mergeManualBlend E iCanvas (snd r) canvas))"

text \<open>
  The spec's words for drawing and blending, to be compared with the functions of the
  source. \<open>placementCalls\<close> is the transform of a placement: the translation, then
  the group pivoted on the centre of the canvas. \<open>drawPlacement\<close> draws a placement
  directly on a canvas, under that transform, with the placement's opacity and a given
  composite operation.
\<close>

definition placementCalls :: "icanvas \<Rightarrow> placement \<Rightarrow> ctx_op list" where
  "placementCalls iCanvas layer =
     (if tx layer \<noteq> 0 \<or> ty layer \<noteq> 0 then [Translate (tx layer) (ty layer)] else [])
     @ (if sx layer \<noteq> 1 \<or> sy layer \<noteq> 1 \<or> rot layer \<noteq> 0 \<or> flip_h layer \<or> flip_v layer
        then pivotGroup iCanvas layer else [])"

definition drawPlacement :: "env \<Rightarrow> icanvas \<Rightarrow> string \<Rightarrow> placement \<Rightarrow> canvas \<Rightarrow> canvas" where
  "drawPlacement E iCanvas operation layer canvas =
     canvas\<lparr>pixels :=
       drawImage E
         \<lparr>calls = placementCalls iCanvas layer, globalAlpha = opacity layer,
          globalCompositeOperation = operation\<rparr>
         (img layer) (img_x layer) (img_y layer) canvas\<rparr>"

text \<open>
  A manual run, placement by placement in list order. \<open>layerPixels\<close> is the
  transformed pixel data of a placement within its rectangle. \<open>manualStep\<close> is what one
  placement does to the state of the run, which is the number of placements seen and
  the two buffers: a placement of zero area only counts; another one fails when its
  blend mode has no function, and otherwise has the function read one buffer and write
  the other (the first placement of the run reads \<open>baseData\<close>, every later one reads
  \<open>outData\<close>). \<open>manualRun\<close> runs the placements in order from the pixels of the canvas
  and a buffer of \<^verbatim>\<open>createImageData\<close>, and puts the last \<open>outData\<close> on the canvas.
\<close>

definition layerPixels :: "env \<Rightarrow> icanvas \<Rightarrow> placement \<Rightarrow> rect \<Rightarrow> bytes" where
  "layerPixels E iCanvas layer rect =
     drawImage E
       \<lparr>calls = Translate (- rx rect) (- ry rect) # placementCalls iCanvas layer,
        globalAlpha = 1, globalCompositeOperation = ''source-over''\<rparr>
       (img layer) (img_x layer) (img_y layer)
       (newCanvas (nat (floor (rwidth rect))) (nat (floor (rheight rect))))"

definition manualStep :: "env \<Rightarrow> icanvas \<Rightarrow> error + nat \<times> bytes \<times> bytes \<Rightarrow> placement
    \<Rightarrow> error + nat \<times> bytes \<times> bytes" where
  "manualStep E iCanvas state layer =
     (case state of
        Inl e \<Rightarrow> Inl e
      | Inr (i, baseData, outData) \<Rightarrow>
          (let rect = calcLayerRect iCanvas layer
           in if \<not> (0 < rwidth rect \<and> 0 < rheight rect) then Inr (i + 1, baseData, outData)
              else
                (case blend E (blendmode layer) of
                   None \<Rightarrow> Inl (NoSuchBlendMode (blendmode layer))
                 | Some f \<Rightarrow>
                     (let reads = (if i = 0 then baseData else outData);
                          writes = (if i = 0 then outData else baseData)
                      in Inr (i + 1, reads,
                              f reads writes (iwidth iCanvas) (iheight iCanvas)
                                \<lparr>lo_data = layerPixels E iCanvas layer rect,
                                 lo_width = rwidth rect, lo_height = rheight rect,
                                 lo_opacity = opacity layer,
                                 lo_dx = rx rect, lo_dy = ry rect\<rparr>)))))"

definition manualRun :: "env \<Rightarrow> icanvas \<Rightarrow> placement list \<Rightarrow> canvas \<Rightarrow> error + canvas" where
  "manualRun E iCanvas run canvas =
     (case foldl (manualStep E iCanvas)
             (Inr (0, pixels canvas,
                   createImageData E canvas (iwidth iCanvas) (iheight iCanvas))) run of
        Inl e \<Rightarrow> Inl e
      | Inr (i, baseData, outData) \<Rightarrow> Inr (canvas\<lparr>pixels := outData\<rparr>))"

text \<open>
  One run applied to the canvas so far: a native run draws its placements in list
  order, each with its blend mode as composite operation; a manual run is
  \<open>manualRun\<close>; a run of undefined capability does nothing.
\<close>

definition blendRun :: "env \<Rightarrow> icanvas \<Rightarrow> error + canvas \<Rightarrow> bool option \<times> placement list
    \<Rightarrow> error + canvas" where
  "blendRun E iCanvas acc r =
     (case acc of
        Inl e \<Rightarrow> Inl e
      | Inr canvas \<Rightarrow>
          (case fst r of
             None \<Rightarrow> Inr canvas
           | Some native \<Rightarrow>
               if native
               then Inr (fold (\<lambda>layer. drawPlacement E iCanvas (blendmode layer) layer) (snd r) canvas)
               else manualRun E iCanvas (snd r) canvas))"

subsection \<open>A sample environment\<close>

text \<open>
  Concrete inputs on which the definitions are evaluated: a one-pixel red image; a
  backend that copies an image drawn at the origin under no other call than
  translations by zero, and otherwise leaves the target as it is; a capability table
  with one native mode and two that are not, of which only \<^verbatim>\<open>darken\<close> has a blend
  function (the smaller of the two bytes); two filters; and exact arithmetic.
\<close>

definition demoImage :: canvas where
  "demoImage = \<lparr>cwidth = 1, cheight = 1, pixels = [255, 0, 0, 255]\<rparr>"

definition demoEnv :: env where
  "demoEnv = \<lparr>hasCreateImageData = True,
     drawImage = (\<lambda>ctx source x y target.
        if removeAll (Translate 0 0) (calls ctx) = [] \<and> x = 0 \<and> y = 0
        then pixels source else pixels target),
     fillColor = (\<lambda>color w h. replicate (4 * w * h) 255),
     fillGradient = (\<lambda>grd w h. replicate (4 * w * h) 128),
     decodeFile = (\<lambda>src. demoImage),
     nativeBlendModes =
       [''source-over'' \<mapsto> True, ''darken'' \<mapsto> False, ''hue'' \<mapsto> False],
     blend = [''darken'' \<mapsto> (\<lambda>baseData outData w h opts. map2 min baseData (lo_data opts))],
     process = [''copy'' \<mapsto> (\<lambda>inData outData w h opts. Inr inData),
                ''invert'' \<mapsto> (\<lambda>inData outData w h opts. Inr (map (\<lambda>b. 255 - b) inData))],
     rounding = (\<lambda>x. x)\<rparr>"

definition demoCanvas :: icanvas where
  "demoCanvas = ICanvas 1 1 []"

text \<open>
  A placement of the sample image on the sample canvas, as \<^verbatim>\<open>getLayerData\<close> builds
  it, with the given blend mode and horizontal translation.
\<close>

definition demoPlacement :: "string \<Rightarrow> real \<Rightarrow> placement" where
  "demoPlacement mode shift =
     \<lparr>opacity = 1, blendmode = mode, tx = shift, ty = 0, sx = 1, sy = 1, rot = 0,
      flip_h = False, flip_v = False, img = demoImage, img_x = 0, img_y = 0\<rparr>"

definition demoLayer :: layer where
  "demoLayer =
     Layer (Fill ''red'') None None
       \<lparr>opacity = 1, blendmode = ''source-over'', tx = 0, ty = 0, sx = 1, sy = 1, rot = 0,
        flip_h = False, flip_v = False\<rparr>
       None []"

definition invertFilter :: filterSpec where
  "invertFilter = \<lparr>fname = ''invert'', foptions = Undefined\<rparr>"

definition copyFilter :: filterSpec where
  "copyFilter = \<lparr>fname = ''copy'', foptions = Undefined\<rparr>"

text \<open>
  A layer that holds the sample image as an html canvas, with an empty mask and no
  filters, and an image canvas of one pixel with given layers.
\<close>

definition demoCanvasLayer :: "string \<Rightarrow> real \<Rightarrow> layer" where
  "demoCanvasLayer mode shift =
     Layer (HtmlCanvas demoImage) None None
       \<lparr>opacity = 1, blendmode = mode, tx = shift, ty = 0, sx = 1, sy = 1, rot = 0,
        flip_h = False, flip_v = False\<rparr>
       (Some (ICanvas 0 0 [])) []"

definition demoStack :: "layer list \<Rightarrow> icanvas" where
  "demoStack ls = ICanvas 1 1 ls"

text \<open>Four such layers: a base, and three layers with blend modes that are not native.\<close>

definition demoLayers :: "layer list" where
  "demoLayers = [demoCanvasLayer ''source-over'' 0, demoCanvasLayer ''hue'' 5,
                 demoCanvasLayer ''hue'' 0, demoCanvasLayer ''darken'' 0]"

section \<open>Properties\<close>

subsection \<open>Rectangle intersection\<close>

text \<open>
  C8. For all rectangles A and B, \<open>rectIntersect A B\<close> equals \<open>rectIntersect B A\<close>, its
  width and height are never negative, and it is the rectangle with
  x = max(x1,x2), y = max(y1,y2), w = max(0, min(right1,right2) - x),
  h = max(0, min(bottom1,bottom2) - y).
\<close>

theorem rectIntersect_commutative_nonneg_formula:
  "rectIntersect A B = rectIntersect B A
   \<and> 0 \<le> rwidth (rectIntersect A B)
   \<and> 0 \<le> rheight (rectIntersect A B)
   \<and> rx (rectIntersect A B) = max (rx A) (rx B)
   \<and> ry (rectIntersect A B) = max (ry A) (ry B)
   \<and> rwidth (rectIntersect A B) =
       max 0 (min (rx A + rwidth A) (rx B + rwidth B) - max (rx A) (rx B))
   \<and> rheight (rectIntersect A B) =
       max 0 (min (ry A + rheight A) (ry B + rheight B) - max (ry A) (ry B))"
  by (simp add: rectIntersect_def Let_def max.commute min.commute)

subsection \<open>Gradient geometry\<close>

text \<open>
  C5 (as stated, for every rotation) fails: at rotation 90 the endpoints are those of
  the sector from 45 to 135, and at 450 those of the last sector, which has no upper
  bound. On these inputs every operation of the double arithmetic is exact, so the
  rounding is the identity.
\<close>

theorem linearEndpoints_period_counterexample:
  "linearEndpoints (\<lambda>x. x) 100 100 (90 + 360) \<noteq> linearEndpoints (\<lambda>x. x) 100 100 90"
  by (simp add: linearEndpoints_def Let_def)

text \<open>
  From 0 to 45 the two sectors give the same endpoints in exact arithmetic, by two
  different formulas, but not under every rounding: with rounding to the nearest
  integer, a layer of height 45 has y1 = 1 at rotation 44 and y1 = 0 at rotation 404.
\<close>

lemma linearEndpoints_period_depends_on_rounding:
  "linearEndpoints (\<lambda>x. of_int (round x)) 45 45 44 = Some (0, 1, 45, 44)
   \<and> linearEndpoints (\<lambda>x. of_int (round x)) 45 45 (44 + 360) = Some (0, 0, 45, 45)"
  by (simp add: linearEndpoints_def Let_def round_def)

text \<open>
  C5, amended. Whatever the rounding of the arithmetic (monotone, and leaving 0, 1
  and the given width w and height h as they are): for every rotation r with
  -360 \<le> r < 0 the linear gradient has the same endpoints for r and for the sum r + 360
  (a negative rotation is normalized by adding 360 once; there is no reduction modulo
  360); at r = 45, 135, 225, 315 the endpoints are exactly (0,0)-(w,h), (w,0)-(0,h),
  (w,h)-(0,0) and (0,h)-(w,0); and at r = 0 they are exactly (0,h/2)-(w,h/2) when
  h/2 and 45 h/2 are computed without rounding, as they are for every pixel height.
\<close>

theorem linearEndpoints_period_and_boundaries:
  assumes "mono rnd" and "rnd 0 = 0" and "rnd 1 = 1" and "rnd w = w" and "rnd h = h"
  shows "(- 360 \<le> r \<and> r < 0 \<longrightarrow>
            linearEndpoints rnd w h (rnd (r + 360)) = linearEndpoints rnd w h r)
   \<and> linearEndpoints rnd w h 45 = Some (0, 0, w, h)
   \<and> linearEndpoints rnd w h 135 = Some (w, 0, 0, h)
   \<and> linearEndpoints rnd w h 225 = Some (w, h, 0, 0)
   \<and> linearEndpoints rnd w h 315 = Some (0, h, w, 0)
   \<and> (rnd 45 = 45 \<and> rnd (h / 2) = h / 2 \<and> rnd (h / 2 * 45) = h / 2 * 45 \<longrightarrow>
        linearEndpoints rnd w h 0 = Some (0, h / 2, w, h / 2))"
proof -
  have period: "linearEndpoints rnd w h (rnd (r + 360)) = linearEndpoints rnd w h r"
    if "- 360 \<le> r" "r < 0"
  proof -
    from that(1) have "0 \<le> r + 360" by simp
    with assms(1) have "rnd 0 \<le> rnd (r + 360)" by (rule monoD)
    with assms(2) have "\<not> rnd (r + 360) < 0" by simp
    with that(2) show ?thesis by (simp add: linearEndpoints_def)
  qed
  have b45: "linearEndpoints rnd w h 45 = Some (0, 0, w, h)"
    using assms by (simp add: linearEndpoints_def Let_def)
  have b135: "linearEndpoints rnd w h 135 = Some (w, 0, 0, h)"
    using assms by (simp add: linearEndpoints_def Let_def)
  have b225: "linearEndpoints rnd w h 225 = Some (w, h, 0, 0)"
    using assms by (simp add: linearEndpoints_def Let_def)
  have b315: "linearEndpoints rnd w h 315 = Some (0, h, w, 0)"
    using assms by (simp add: linearEndpoints_def Let_def)
  have b0: "linearEndpoints rnd w h 0 = Some (0, h / 2, w, h / 2)"
    if "rnd 45 = 45" "rnd (h / 2) = h / 2" "rnd (h / 2 * 45) = h / 2 * 45"
  proof -
    have a: "rnd (45 - 0) = 45" using that(1) by simp
    have "rnd (rnd (rnd (h / 2) * rnd (45 - 0)) / 45) = rnd (rnd (h / 2 * 45) / 45)"
      by (simp only: a that(2))
    also have "\<dots> = rnd (h / 2 * 45 / 45)" by (simp only: that(3))
    also have "\<dots> = rnd (h / 2)" by simp
    also have "\<dots> = h / 2" by (rule that(2))
    finally have y1: "rnd (rnd (rnd (h / 2) * rnd (45 - 0)) / 45) = h / 2" .
    have "rnd (h - h / 2) = rnd (h / 2)" by simp
    then have y2: "rnd (h - h / 2) = h / 2" by (simp only: that(2))
    have "linearEndpoints rnd w h 0 =
        Some (0, rnd (rnd (rnd (h / 2) * rnd (45 - 0)) / 45), w,
              rnd (h - rnd (rnd (rnd (h / 2) * rnd (45 - 0)) / 45)))"
      by (simp add: linearEndpoints_def Let_def)
    then show ?thesis by (simp only: y1 y2)
  qed
  from period b45 b135 b225 b315 b0 show ?thesis by blast
qed

theorem linearEndpoints_period_and_boundaries_witness:
  "mono (\<lambda>x :: real. x)
   \<and> - 360 \<le> (- 90 :: real) \<and> (- 90 :: real) < 0
   \<and> linearEndpoints (\<lambda>x. x) 200 100 (- 90 + 360) = linearEndpoints (\<lambda>x. x) 200 100 (- 90)
   \<and> linearEndpoints (\<lambda>x. x) 200 100 (- 90) = Some (100, 100, 100, 0)
   \<and> linearEndpoints (\<lambda>x. x) 200 100 0 = Some (0, 50, 200, 50)"
  using linearEndpoints_period_and_boundaries [of "\<lambda>x. x" 200 100 "- 90"]
  by (simp add: linearEndpoints_def Let_def mono_def)

text \<open>Below -360 no branch of the conditional is taken and the endpoints are undefined.\<close>

lemma linearEndpoints_below_range:
  "mono rnd \<Longrightarrow> rnd 0 = 0 \<Longrightarrow> rnd (r + 360) \<noteq> 0 \<Longrightarrow> r < - 360
   \<Longrightarrow> linearEndpoints rnd w h r = None"
proof -
  assume m: "mono rnd" and z: "rnd 0 = 0" and nz: "rnd (r + 360) \<noteq> 0" and r: "r < - 360"
  from r have "r + 360 \<le> 0" by simp
  with m have "rnd (r + 360) \<le> rnd 0" by (rule monoD)
  with z nz have "rnd (r + 360) < 0" by simp
  with r show ?thesis by (simp add: linearEndpoints_def)
qed

subsection \<open>Rendering no layers\<close>

text \<open>
  C3. For every canvas with zero layers, render calls the completion callback with
  \<^verbatim>\<open>null\<close> ("no image") and raises no error; without a callback it raises no error
  either.
\<close>

theorem render_no_layers:
  "render E (ICanvas w h []) True = Inr (Called None)
   \<and> render E (ICanvas w h []) False = Inr NotCalled"
  by (simp add: render.simps getLayerData_def composite_def)

subsection \<open>The mask of a layer\<close>

text \<open>
  C10. The mask stage reads \<^verbatim>\<open>mask.layers\<close> before anything else: for every layer
  whose mask is \<^verbatim>\<open>null\<close>, building the layer's pipeline fails with a TypeError (the mask
  is not treated as "no mask"), whatever the layer's content and filters; a mask with
  an empty layer list is the pass-through.
\<close>

theorem null_mask_type_error:
  "processMask E None = Inl TypeError
   \<and> (mask layer = None \<longrightarrow> processLayers E iCanvas layer = Inl TypeError)
   \<and> processMask E (Some (ICanvas w h [])) = Inr passThrough"
  by (simp add: processLayers.simps)

theorem null_mask_type_error_witness:
  "mask demoLayer = None \<and> processLayers demoEnv demoCanvas demoLayer = Inl TypeError"
  using null_mask_type_error [of demoEnv demoLayer demoCanvas]
  by (simp add: demoLayer_def)

subsection \<open>The placement transform\<close>

text \<open>
  C6. For every layer, \<^verbatim>\<open>transformLayer\<close> first translates by (tx, ty) (when that is
  not zero) and then, only if scale, rotation or flip is not the identity, makes the
  group of calls pivoted on the centre of the canvas: translate to the centre, rotate
  by rot degrees, scale by (sx, sy), flip by a scale of -1 on the flipped axes,
  translate back. A layer with tx = ty = 0, sx = sy = 1, rot = 0 and no flip leaves the
  context as it is (the identity transform).
\<close>

theorem transformLayer_calls:
  "calls (transformLayer ctx iCanvas layer) =
     calls ctx
     @ (if tx layer \<noteq> 0 \<or> ty layer \<noteq> 0 then [Translate (tx layer) (ty layer)] else [])
     @ (if sx layer \<noteq> 1 \<or> sy layer \<noteq> 1 \<or> rot layer \<noteq> 0 \<or> flip_h layer \<or> flip_v layer
        then pivotGroup iCanvas layer else [])
   \<and> (tx layer = 0 \<and> ty layer = 0 \<and> sx layer = 1 \<and> sy layer = 1 \<and> rot layer = 0
        \<and> \<not> flip_h layer \<and> \<not> flip_v layer \<longrightarrow> transformLayer ctx iCanvas layer = ctx)"
  by (simp add: transformLayer_def pivotGroup_def Let_def ctx_translate_def ctx_rotate_def
      ctx_scale_def)

theorem transformLayer_calls_witness:
  "tx (demoPlacement ''source-over'' 0) = 0 \<and> ty (demoPlacement ''source-over'' 0) = 0
   \<and> sx (demoPlacement ''source-over'' 0) = 1 \<and> sy (demoPlacement ''source-over'' 0) = 1
   \<and> rot (demoPlacement ''source-over'' 0) = 0
   \<and> \<not> flip_h (demoPlacement ''source-over'' 0) \<and> \<not> flip_v (demoPlacement ''source-over'' 0)
   \<and> transformLayer newContext demoCanvas (demoPlacement ''source-over'' 0) = newContext"
  using transformLayer_calls [of newContext demoCanvas "demoPlacement ''source-over'' 0"]
  by (simp add: demoPlacement_def)

text \<open>
  The same as matrices: whatever calls are left out, the transform is the product of
  the translation, the translation to the centre, the rotation, the scale, the flip
  and the translation back; and the pivot group leaves the centre of the canvas where
  it is.
\<close>

lemma radians_0: "radians 0 = 0"
  by (simp add: radians_def)

lemma transformLayer_matrix:
  "ctxMatrix (calls (transformLayer newContext iCanvas layer)) =
     ctxMatrix [Translate (tx layer) (ty layer),
                Translate (real (iwidth iCanvas) / 2) (real (iheight iCanvas) / 2),
                Rotate (radians (rot layer)),
                Scale (sx layer) (sy layer),
                Scale (if flip_h layer then - 1 else 1) (if flip_v layer then - 1 else 1),
                Translate (- real (iwidth iCanvas) / 2) (- real (iheight iCanvas) / 2)]"
  by (simp add: transformLayer_def Let_def ctx_translate_def ctx_rotate_def ctx_scale_def
      newContext_def ctxMatrix_def m_identity_def radians_0 algebra_simps)

lemma pivotGroup_fixes_centre:
  "transformPoint (ctxMatrix (pivotGroup iCanvas layer))
     (real (iwidth iCanvas) / 2, real (iheight iCanvas) / 2)
   = (real (iwidth iCanvas) / 2, real (iheight iCanvas) / 2)"
  by (simp add: pivotGroup_def ctxMatrix_def m_identity_def algebra_simps)

subsection \<open>The filter stage\<close>

text \<open>
  C7. With an empty filter chain the filter stage is the pass-through: the canvas is
  returned as it is and no buffer is made. With a chain of two filters, the first
  reads the original pixels and writes the buffer made by \<^verbatim>\<open>createImageData\<close>
  (buffer A); the second reads buffer A and writes the other buffer, the one that held
  the original pixels (buffer B); the canvas ends with what the second filter wrote.
\<close>

theorem processImage_empty_and_pair:
  "processImage E [] = passThrough
   \<and> processImage E [] canvas = Inr canvas
   \<and> (process E (fname f1) = Some p1 \<and> process E (fname f2) = Some p2
      \<and> p1 (pixels c) (createImageData E c (cwidth c) (cheight c)) (cwidth c) (cheight c)
           (foptions f1) = Inr bufferA
      \<and> p2 bufferA (pixels c) (cwidth c) (cheight c) (foptions f2) = Inr bufferB
      \<longrightarrow> processImage E [f1, f2] (Some c) = Inr (Some (c\<lparr>pixels := bufferB\<rparr>)))"
  by (simp add: processImage_def passThrough_def getImageData_def putImageData_def)

theorem processImage_empty_and_pair_witness:
  "process demoEnv (fname invertFilter)
     = Some (\<lambda>inData outData w h opts. Inr (map (\<lambda>b. 255 - b) inData))
   \<and> process demoEnv (fname copyFilter) = Some (\<lambda>inData outData w h opts. Inr inData)
   \<and> processImage demoEnv [invertFilter, copyFilter] (Some demoImage)
       = Inr (Some (demoImage\<lparr>pixels := [0, 255, 255, 0]\<rparr>))"
  using processImage_empty_and_pair [of demoEnv None invertFilter
      "\<lambda>inData outData w h opts. Inr (map (\<lambda>b. 255 - b) inData)"
      copyFilter "\<lambda>inData outData w h opts. Inr inData"
      demoImage "[0, 255, 255, 0]" "[0, 255, 255, 0]"]
  by (simp add: demoEnv_def demoImage_def invertFilter_def copyFilter_def)

subsection \<open>The blend compositor: the pipeline that merge builds\<close>

text \<open>
  The loop of \<^verbatim>\<open>merge\<close> builds, in front of the base canvas and in reverse, one entry
  for every maximal run of placements whose capability is \<^verbatim>\<open>true\<close> or \<^verbatim>\<open>false\<close>, and
  none for a run whose capability is \<^verbatim>\<open>undefined\<close>.
\<close>

lemma joinRun_joinRun: "joinRun (k, xs) (joinRun (k, ys) runs) = joinRun (k, xs @ ys) runs"
  by (cases runs) auto

lemma joinRun_other: "k \<noteq> k' \<Longrightarrow> joinRun (k, xs) (joinRun (k', ys) runs) = (k, xs) # joinRun (k', ys) runs"
  by (cases runs) auto

lemma runEntries_joinRun_None: "runEntries (joinRun (None, xs) runs) = runEntries runs"
  by (cases runs) (auto simp: runEntries_def)

lemma rev_runEntry: "rev (runEntry r) = runEntry r"
  by (cases r rule: runEntry.cases) auto

lemma pushList_pipe:
  "renderPipe (pushList st) = runEntry (useNative st, currentList st) @ renderPipe st"
  by (cases "useNative st") (auto simp: pushList_def)

lemma pushList_other: "useNative (pushList st) = useNative st" "currentList (pushList st) = currentList st"
  by (cases "useNative st"; simp add: pushList_def)+

lemma mergeLoop_pipe:
  "xs \<noteq> [] \<Longrightarrow>
   renderPipe (mergeLoop E xs \<lparr>useNative = u, currentList = cur, renderPipe = pipe\<rparr>) =
     rev (runEntries (joinRun (u, cur) (capabilityRuns (capability E) xs))) @ pipe"
proof (induction xs arbitrary: u cur pipe)
  case Nil
  then show ?case by simp
next
  case (Cons x xs)
  let ?k = "capability E x"
  show ?case
  proof (cases "xs = []")
    case True
    then show ?thesis
      by (cases u; cases ?k)
         (auto simp: pushList_def runEntries_def capability_def [symmetric])
  next
    case False
    note IH = Cons.IH [OF False]
    show ?thesis
    proof (cases "u = None \<or> u \<noteq> ?k")
      case reset: True
      have "renderPipe (mergeLoop E (x # xs) \<lparr>useNative = u, currentList = cur, renderPipe = pipe\<rparr>)
          = rev (runEntries (joinRun (?k, [x]) (capabilityRuns (capability E) xs))) @ runEntry (u, cur) @ pipe"
        using reset False IH [of ?k "[x]" "runEntry (u, cur) @ pipe"]
        by (cases u) (auto simp: pushList_def capability_def [symmetric] Let_def)
      also have "\<dots> = rev (runEntries (joinRun (u, cur) (joinRun (?k, [x]) (capabilityRuns (capability E) xs)))) @ pipe"
      proof (cases "u = ?k")
        case True
        with reset have "u = None" by simp
        with True show ?thesis by (simp add: runEntries_joinRun_None)
      next
        case False
        then show ?thesis
          by (simp add: joinRun_other runEntries_def rev_runEntry)
      qed
      finally show ?thesis by simp
    next
      case keep: False
      then have uk: "u = ?k" by simp
      have "renderPipe (mergeLoop E (x # xs) \<lparr>useNative = u, currentList = cur, renderPipe = pipe\<rparr>)
          = rev (runEntries (joinRun (?k, cur @ [x]) (capabilityRuns (capability E) xs))) @ pipe"
        using keep False IH [of ?k "cur @ [x]" pipe]
        by (auto simp: capability_def [symmetric] Let_def)
      then show ?thesis using uk by (simp add: joinRun_joinRun)
    qed
  qed
qed

lemma mergePipe_runs:
  "mergePipe E canvas rest = rev (runEntries (capabilityRuns (capability E) rest)) @ [Seed canvas]"
proof (cases "rest = []")
  case True
  then show ?thesis by (simp add: mergePipe_def runEntries_def)
next
  case False
  then show ?thesis
    by (simp add: mergePipe_def mergeLoop_pipe runEntries_joinRun_None)
qed


lemma async_compose_snoc:
  "async_compose (fs @ [g]) a = (case g a of Inl e \<Rightarrow> Inl e | Inr v \<Rightarrow> async_compose fs v)"
  by (induction fs arbitrary: a) (auto split: sum.splits)

lemma async_compose_pipe:
  "async_compose (map (pipeStage E iCanvas) (rev es)) v =
     foldl (entryStep E iCanvas) (Inr v) es"
proof (induction es rule: rev_induct)
  case Nil
  show ?case by simp
next
  case (snoc e es)
  then show ?case by (simp add: entryStep_def)
qed

lemma foldl_entryStep_runs:
  "foldl (entryStep E iCanvas) acc (runEntries runs) = foldl (runStep E iCanvas) acc runs"
proof (induction runs arbitrary: acc)
  case Nil
  show ?case by (simp add: runEntries_def)
next
  case (Cons r runs)
  have "foldl (entryStep E iCanvas) acc (runEntry r) = runStep E iCanvas acc r"
    by (cases r rule: runEntry.cases) (auto simp: entryStep_def runStep_def split: sum.splits)
  with Cons.IH show ?case by (simp add: runEntries_def)
qed

lemma merge_runs:
  "merge E iCanvas (base # rest) =
     foldl (runStep E iCanvas) (Inr (Some (singleLayerWithOpacity E iCanvas base)))
       (capabilityRuns (capability E) rest)"
proof -
  let ?seed = "singleLayerWithOpacity E iCanvas base"
  let ?es = "runEntries (capabilityRuns (capability E) rest)"
  have "merge E iCanvas (base # rest) =
      async_compose (map (pipeStage E iCanvas) (rev (Seed ?seed # ?es))) None"
    by (simp add: merge_def mergePipe_runs)
  also have "\<dots> = foldl (entryStep E iCanvas) (Inr None) (Seed ?seed # ?es)"
    by (rule async_compose_pipe)
  also have "\<dots> = foldl (entryStep E iCanvas) (Inr (Some ?seed)) ?es"
    by (simp add: entryStep_def)
  finally show ?thesis by (simp add: foldl_entryStep_runs)
qed

text \<open>
  The runs are the maximal contiguous groups: together they are the list, each is
  non-empty with one key, and neighbours have different keys.
\<close>

lemma concat_joinRun: "concat (map snd (joinRun (k, ys) runs)) = ys @ concat (map snd runs)"
  by (cases runs) auto

lemma concat_capabilityRuns: "concat (map snd (capabilityRuns key xs)) = xs"
  by (induction xs) (simp_all add: concat_joinRun)

lemma capabilityRuns_uniform:
  "(k, run) \<in> set (capabilityRuns key xs) \<Longrightarrow> run \<noteq> [] \<and> (\<forall>x\<in>set run. key x = k)"
proof (induction xs arbitrary: k run)
  case Nil
  then show ?case by simp
next
  case (Cons x xs)
  show ?case
  proof (cases "capabilityRuns key xs")
    case Nil
    with Cons.prems show ?thesis by simp
  next
    case (Cons r runs)
    obtain k' ys where r: "r = (k', ys)" by (cases r)
    have "(k', ys) \<in> set (capabilityRuns key xs)" using Cons r by simp
    from Cons.IH [OF this] have ys: "ys \<noteq> []" "\<forall>x\<in>set ys. key x = k'" by simp_all
    have rest: "(k, run) \<in> set runs \<Longrightarrow> run \<noteq> [] \<and> (\<forall>x\<in>set run. key x = k)"
      using Cons.IH [of k run] Cons by simp
    show ?thesis
      using Cons.prems Cons r ys rest
      by (auto split: if_splits)
  qed
qed

lemma distinct_adj_joinRun:
  "distinct_adj (map fst runs) \<Longrightarrow> distinct_adj (map fst (joinRun (k, ys) runs))"
  by (cases runs) auto

lemma capabilityRuns_distinct_adj: "distinct_adj (map fst (capabilityRuns key xs))"
  by (induction xs) (simp_all add: distinct_adj_joinRun)

lemma capabilityRuns_constant:
  "xs \<noteq> [] \<Longrightarrow> \<forall>x\<in>set xs. key x = k \<Longrightarrow> capabilityRuns key xs = [(k, xs)]"
proof (induction xs)
  case Nil
  then show ?case by simp
next
  case (Cons x xs)
  then show ?case by (cases "xs = []") auto
qed

lemma length_runEntries:
  "\<forall>r\<in>set runs. fst r \<noteq> None \<Longrightarrow> length (runEntries runs) = length runs"
proof (induction runs)
  case Nil
  show ?case by (simp add: runEntries_def)
next
  case (Cons r runs)
  then obtain native run where "r = (Some native, run)" by (cases r) auto
  with Cons show ?case by (simp add: runEntries_def)
qed

lemma layers_runEntries_joinRun:
  "concat (map entryLayers (runEntries (joinRun (k, ys) runs))) =
     (if k = None then [] else ys) @ concat (map entryLayers (runEntries runs))"
proof (cases runs)
  case Nil
  then show ?thesis by (cases k) (simp_all add: runEntries_def)
next
  case (Cons r runs')
  obtain k' zs where "r = (k', zs)" by (cases r)
  with Cons show ?thesis by (cases k; cases k') (simp_all add: runEntries_def)
qed

lemma layers_runEntries:
  "concat (map entryLayers (runEntries (capabilityRuns (capability E) xs))) =
     filter (\<lambda>l. nativeBlendModes E (blendmode l) \<noteq> None) xs"
proof (induction xs)
  case Nil
  show ?case by (simp add: runEntries_def)
next
  case (Cons x xs)
  then show ?case by (simp add: layers_runEntries_joinRun capability_def)
qed

lemma runEntries_all_unknown:
  "\<forall>x\<in>set xs. capability E x = None \<Longrightarrow> runEntries (capabilityRuns (capability E) xs) = []"
proof (induction xs)
  case Nil
  show ?case by (simp add: runEntries_def)
next
  case (Cons x xs)
  then show ?case by (simp add: runEntries_joinRun_None)
qed

subsection \<open>The blend compositor: manual runs\<close>

text \<open>
  The only error of a manual run is the missing blend function of one of its
  placements; an error stops the pipeline.
\<close>

lemma manualBlendLoop_error:
  "manualBlendLoop E iCanvas i run bufs = Inl e \<Longrightarrow>
     \<exists>l\<in>set run. e = NoSuchBlendMode (blendmode l) \<and> blend E (blendmode l) = None"
proof (induction run arbitrary: i bufs)
  case Nil
  then show ?case by (cases bufs) simp
next
  case (Cons layer run)
  obtain b out where bufs: "bufs = (b, out)" by (cases bufs)
  show ?case
  proof (cases "rwidth (calcLayerRect iCanvas layer) > 0 \<and> rheight (calcLayerRect iCanvas layer) > 0")
    case False
    with Cons.prems bufs have "manualBlendLoop E iCanvas (i + 1) run (b, out) = Inl e"
      by (auto simp: Let_def)
    from Cons.IH [OF this] show ?thesis by auto
  next
    case True
    show ?thesis
    proof (cases "blend E (blendmode layer)")
      case None
      with True Cons.prems bufs show ?thesis by (auto simp: Let_def split: if_splits)
    next
      case (Some f)
      with True Cons.prems bufs obtain bufs' where "manualBlendLoop E iCanvas (i + 1) run bufs' = Inl e"
        by (auto simp: Let_def split: if_splits)
      from Cons.IH [OF this] show ?thesis by auto
    qed
  qed
qed

lemma runStep_Inl: "runStep E iCanvas (Inl e) r = Inl e"
  by (simp add: runStep_def)

lemma foldl_runStep_Inl: "foldl (runStep E iCanvas) (Inl e) runs = Inl e"
  by (induction runs) (simp_all add: runStep_Inl)

lemma capabilityRuns_subset:
  "r \<in> set (capabilityRuns key xs) \<Longrightarrow> set (snd r) \<subseteq> set xs"
proof -
  assume "r \<in> set (capabilityRuns key xs)"
  then have "set (snd r) \<subseteq> set (concat (map snd (capabilityRuns key xs)))" by auto
  then show ?thesis by (simp add: concat_capabilityRuns)
qed

lemma composite_merge: "rest \<noteq> [] \<Longrightarrow> composite E iCanvas (base # rest) = merge E iCanvas (base # rest)"
  by (cases rest) (simp_all add: composite_def)

subsection \<open>The source's drawing and blending, in the spec's words\<close>

text \<open>
  \<^verbatim>\<open>transformLayer\<close> adds the transform of the placement to the context;
  \<^verbatim>\<open>singleLayerWithOpacity\<close> and each step of \<^verbatim>\<open>mergeNativeBlend\<close> are a direct draw;
  the loop of \<^verbatim>\<open>mergeManualBlend\<close> is the steps of the run in list order; and the
  composite is the runs in order.
\<close>

lemma transformLayer_context:
  "transformLayer ctx iCanvas layer = ctx\<lparr>calls := calls ctx @ placementCalls iCanvas layer\<rparr>"
  by (simp add: transformLayer_def placementCalls_def pivotGroup_def Let_def ctx_translate_def
      ctx_rotate_def ctx_scale_def)

lemma singleLayerWithOpacity_draw:
  "singleLayerWithOpacity E iCanvas layer =
     drawPlacement E iCanvas ''source-over'' layer (newCanvas (iwidth iCanvas) (iheight iCanvas))"
  by (simp add: singleLayerWithOpacity_def drawPlacement_def transformLayer_context newContext_def
      putImageData_def Let_def)

lemma nativeDraw_draw:
  "nativeDraw E iCanvas layer canvas = drawPlacement E iCanvas (blendmode layer) layer canvas"
  by (simp add: nativeDraw_def drawPlacement_def transformLayer_context newContext_def
      putImageData_def Let_def)

lemma mergeNativeBlend_fold:
  "mergeNativeBlend E iCanvas run (Some c) =
     Inr (Some (fold (\<lambda>layer. drawPlacement E iCanvas (blendmode layer) layer) run c))"
proof -
  have "nativeDraw E iCanvas = (\<lambda>layer. drawPlacement E iCanvas (blendmode layer) layer)"
    by (rule ext)+ (rule nativeDraw_draw)
  then show ?thesis by (simp add: mergeNativeBlend_def)
qed

lemma getTransformedLayerData_pixels:
  "getTransformedLayerData E iCanvas layer rect = layerPixels E iCanvas layer rect"
  by (simp add: getTransformedLayerData_def layerPixels_def transformLayer_context newContext_def
      ctx_translate_def putImageData_def getImageData_def Let_def)

lemma manualStep_Inl: "manualStep E iCanvas (Inl e) layer = Inl e"
  by (simp add: manualStep_def)

lemma manualStep_skip:
  "\<not> (0 < rwidth (calcLayerRect iCanvas layer) \<and> 0 < rheight (calcLayerRect iCanvas layer))
   \<Longrightarrow> manualStep E iCanvas (Inr (i, baseData, outData)) layer = Inr (i + 1, baseData, outData)"
  by (simp add: manualStep_def Let_def)

lemma manualStep_unregistered:
  "0 < rwidth (calcLayerRect iCanvas layer) \<Longrightarrow> 0 < rheight (calcLayerRect iCanvas layer)
   \<Longrightarrow> blend E (blendmode layer) = None
   \<Longrightarrow> manualStep E iCanvas (Inr (i, baseData, outData)) layer =
         Inl (NoSuchBlendMode (blendmode layer))"
  by (simp add: manualStep_def Let_def)

lemma manualStep_blend:
  "0 < rwidth (calcLayerRect iCanvas layer) \<Longrightarrow> 0 < rheight (calcLayerRect iCanvas layer)
   \<Longrightarrow> blend E (blendmode layer) = Some f
   \<Longrightarrow> manualStep E iCanvas (Inr (i, baseData, outData)) layer =
         Inr (i + 1, if i = 0 then baseData else outData,
              f (if i = 0 then baseData else outData) (if i = 0 then outData else baseData)
                (iwidth iCanvas) (iheight iCanvas)
                \<lparr>lo_data = layerPixels E iCanvas layer (calcLayerRect iCanvas layer),
                 lo_width = rwidth (calcLayerRect iCanvas layer),
                 lo_height = rheight (calcLayerRect iCanvas layer),
                 lo_opacity = opacity layer,
                 lo_dx = rx (calcLayerRect iCanvas layer),
                 lo_dy = ry (calcLayerRect iCanvas layer)\<rparr>)"
  by (simp add: manualStep_def Let_def)

lemma foldl_manualStep_Inl: "foldl (manualStep E iCanvas) (Inl e) run = Inl e"
  by (induction run) (simp_all add: manualStep_Inl)

lemma manualBlendLoop_fold:
  "manualBlendLoop E iCanvas i run (baseData, outData) =
     (case foldl (manualStep E iCanvas) (Inr (i, baseData, outData)) run of
        Inl e \<Rightarrow> Inl e
      | Inr (i', baseData', outData') \<Rightarrow> Inr (baseData', outData'))"
proof (induction run arbitrary: i baseData outData)
  case Nil
  show ?case by simp
next
  case (Cons layer run)
  show ?case
  proof (cases "0 < rwidth (calcLayerRect iCanvas layer) \<and> 0 < rheight (calcLayerRect iCanvas layer)")
    case False
    then show ?thesis using Cons.IH [of "i + 1" baseData outData]
      by (auto simp add: manualStep_skip Let_def)
  next
    case True
    show ?thesis
    proof (cases "blend E (blendmode layer)")
      case None
      with True show ?thesis
        by (simp add: manualStep_unregistered Let_def foldl_manualStep_Inl split: prod.splits)
    next
      case (Some f)
      with True Cons.IH show ?thesis
        by (cases "i = 0")
           (simp_all add: manualStep_blend Let_def getTransformedLayerData_pixels)
    qed
  qed
qed

lemma mergeManualBlend_run:
  "mergeManualBlend E iCanvas run (Some c) =
     (case manualRun E iCanvas run c of Inl e \<Rightarrow> Inl e | Inr c' \<Rightarrow> Inr (Some c'))"
  by (simp add: mergeManualBlend_def manualRun_def manualBlendLoop_fold getImageData_def
      putImageData_def split: sum.splits prod.splits)

lemma runStep_blendRun:
  "runStep E iCanvas (case acc of Inl e \<Rightarrow> Inl e | Inr c \<Rightarrow> Inr (Some c)) r =
     (case blendRun E iCanvas acc r of Inl e \<Rightarrow> Inl e | Inr c \<Rightarrow> Inr (Some c))"
  by (cases acc; cases "fst r")
     (auto simp: runStep_def blendRun_def mergeNativeBlend_fold mergeManualBlend_run)

lemma foldl_runStep_blendRun:
  "foldl (runStep E iCanvas) (case acc of Inl e \<Rightarrow> Inl e | Inr c \<Rightarrow> Inr (Some c)) runs =
     (case foldl (blendRun E iCanvas) acc runs of Inl e \<Rightarrow> Inl e | Inr c \<Rightarrow> Inr (Some c))"
proof (induction runs arbitrary: acc)
  case Nil
  show ?case by simp
next
  case (Cons r runs)
  show ?case using Cons.IH [of "blendRun E iCanvas acc r"] by (simp add: runStep_blendRun)
qed

lemma composite_blendRuns:
  "rest \<noteq> [] \<Longrightarrow>
   composite E iCanvas (base # rest) =
     (case foldl (blendRun E iCanvas)
             (Inr (drawPlacement E iCanvas ''source-over'' base
                     (newCanvas (iwidth iCanvas) (iheight iCanvas))))
             (capabilityRuns (capability E) rest) of
        Inl e \<Rightarrow> Inl e
      | Inr c \<Rightarrow> Inr (Some c))"
  using foldl_runStep_blendRun [of E iCanvas
      "Inr (drawPlacement E iCanvas ''source-over'' base (newCanvas (iwidth iCanvas) (iheight iCanvas)))"
      "capabilityRuns (capability E) rest"]
  by (simp add: composite_merge merge_runs singleLayerWithOpacity_draw)

subsection \<open>The first placement without a blend function\<close>

text \<open>
  A manual run goes through the placements before the first one of non-zero area
  without a blend function, and fails at that one; what comes after it, in the run or
  in later runs, plays no part.
\<close>

lemma foldl_manualStep_ok:
  "\<forall>q\<in>set xs. \<not> (0 < rwidth (calcLayerRect iCanvas q) \<and> 0 < rheight (calcLayerRect iCanvas q)
                  \<and> blend E (blendmode q) = None)
   \<Longrightarrow> \<exists>i' b' out'. foldl (manualStep E iCanvas) (Inr (i, b, out)) xs = Inr (i', b', out')"
proof (induction xs arbitrary: i b out)
  case Nil
  show ?case by simp
next
  case (Cons q xs)
  show ?case
  proof (cases "0 < rwidth (calcLayerRect iCanvas q) \<and> 0 < rheight (calcLayerRect iCanvas q)")
    case False
    with Cons show ?thesis by (simp add: manualStep_skip)
  next
    case True
    with Cons.prems obtain f where "blend E (blendmode q) = Some f" by auto
    with True Cons show ?thesis by (simp add: manualStep_blend)
  qed
qed

lemma manualBlendLoop_first_unregistered:
  assumes "\<forall>q\<in>set xs. \<not> (0 < rwidth (calcLayerRect iCanvas q) \<and> 0 < rheight (calcLayerRect iCanvas q)
                  \<and> blend E (blendmode q) = None)"
    and "0 < rwidth (calcLayerRect iCanvas p)" and "0 < rheight (calcLayerRect iCanvas p)"
    and "blend E (blendmode p) = None"
  shows "manualBlendLoop E iCanvas i (xs @ p # ys) (b, out) = Inl (NoSuchBlendMode (blendmode p))"
proof -
  from foldl_manualStep_ok [OF assms(1)]
  obtain i' b' out' where "foldl (manualStep E iCanvas) (Inr (i, b, out)) xs = Inr (i', b', out')"
    by blast
  then have "foldl (manualStep E iCanvas) (Inr (i, b, out)) (xs @ p # ys)
      = Inl (NoSuchBlendMode (blendmode p))"
    using assms(2-4) by (simp add: manualStep_unregistered foldl_manualStep_Inl)
  then show ?thesis by (simp add: manualBlendLoop_fold)
qed

lemma manualBlendLoop_ok:
  assumes "\<forall>q\<in>set xs. \<not> (0 < rwidth (calcLayerRect iCanvas q) \<and> 0 < rheight (calcLayerRect iCanvas q)
                  \<and> blend E (blendmode q) = None)"
  shows "\<exists>bufs. manualBlendLoop E iCanvas i xs (b, out) = Inr bufs"
proof -
  from foldl_manualStep_ok [OF assms]
  obtain i' b' out' where "foldl (manualStep E iCanvas) (Inr (i, b, out)) xs = Inr (i', b', out')"
    by blast
  then show ?thesis by (simp add: manualBlendLoop_fold)
qed

lemma runStep_ok:
  assumes "\<forall>q\<in>set run. capability E q = k"
    and "\<forall>q\<in>set run. \<not> (nativeBlendModes E (blendmode q) = Some False
            \<and> blend E (blendmode q) = None
            \<and> 0 < rwidth (calcLayerRect iCanvas q) \<and> 0 < rheight (calcLayerRect iCanvas q))"
  shows "\<exists>c'. runStep E iCanvas (Inr (Some c)) (k, run) = Inr (Some c')"
proof (cases k)
  case None
  then show ?thesis by (simp add: runStep_def)
next
  case (Some native)
  show ?thesis
  proof (cases native)
    case True
    with Some show ?thesis by (simp add: runStep_def mergeNativeBlend_def)
  next
    case False
    with Some assms have "\<forall>q\<in>set run. \<not> (0 < rwidth (calcLayerRect iCanvas q)
        \<and> 0 < rheight (calcLayerRect iCanvas q) \<and> blend E (blendmode q) = None)"
      by (auto simp: capability_def)
    from manualBlendLoop_ok [OF this]
    obtain bufs where "manualBlendLoop E iCanvas 0 run
        (getImageData c, createImageData E c (iwidth iCanvas) (iheight iCanvas)) = Inr bufs"
      by blast
    with Some False show ?thesis
      by (cases bufs) (simp add: runStep_def mergeManualBlend_def)
  qed
qed

lemma foldl_runStep_first_unregistered:
  assumes "\<forall>r\<in>set runs. \<forall>q\<in>set (snd r). capability E q = fst r"
    and "concat (map snd runs) = before @ p # after"
    and "\<forall>q\<in>set before. \<not> (nativeBlendModes E (blendmode q) = Some False
            \<and> blend E (blendmode q) = None
            \<and> 0 < rwidth (calcLayerRect iCanvas q) \<and> 0 < rheight (calcLayerRect iCanvas q))"
    and "nativeBlendModes E (blendmode p) = Some False" and "blend E (blendmode p) = None"
    and "0 < rwidth (calcLayerRect iCanvas p)" and "0 < rheight (calcLayerRect iCanvas p)"
  shows "foldl (runStep E iCanvas) (Inr (Some c)) runs = Inl (NoSuchBlendMode (blendmode p))"
  using assms(1-3)
proof (induction runs arbitrary: before c)
  case Nil
  then show ?case by simp
next
  case (Cons r runs)
  obtain k run where r: "r = (k, run)" by (cases r)
  from Cons.prems(1) r have uni: "\<forall>q\<in>set run. capability E q = k" by simp
  from Cons.prems(2) r have eq: "run @ concat (map snd runs) = before @ p # after" by simp
  then consider
    (here) us where "run = before @ p # us"
    | (later) us where "before = run @ us" "concat (map snd runs) = us @ p # after"
  proof -
    from eq obtain us where
      "(run = before @ us \<and> us @ concat (map snd runs) = p # after)
       \<or> (run @ us = before \<and> concat (map snd runs) = us @ p # after)"
      by (auto simp: append_eq_append_conv2)
    then show ?thesis
    proof
      assume a: "run = before @ us \<and> us @ concat (map snd runs) = p # after"
      show ?thesis
      proof (cases us)
        case Nil
        with a have "before = run @ []" "concat (map snd runs) = [] @ p # after" by simp_all
        then show ?thesis by (rule that(2))
      next
        case (Cons u us')
        with a have "run = before @ p # us'" by simp
        then show ?thesis by (rule that(1))
      qed
    next
      assume "run @ us = before \<and> concat (map snd runs) = us @ p # after"
      then have "before = run @ us" "concat (map snd runs) = us @ p # after" by simp_all
      then show ?thesis by (rule that(2))
    qed
  qed
  then show ?case
  proof cases
    case here
    with uni have k: "k = Some False" using assms(4) by (auto simp: capability_def)
    have "\<forall>q\<in>set before. \<not> (0 < rwidth (calcLayerRect iCanvas q)
        \<and> 0 < rheight (calcLayerRect iCanvas q) \<and> blend E (blendmode q) = None)"
    proof
      fix q assume q: "q \<in> set before"
      with here uni k have "nativeBlendModes E (blendmode q) = Some False"
        by (auto simp: capability_def)
      with Cons.prems(3) q show "\<not> (0 < rwidth (calcLayerRect iCanvas q)
        \<and> 0 < rheight (calcLayerRect iCanvas q) \<and> blend E (blendmode q) = None)"
        by blast
    qed
    from manualBlendLoop_first_unregistered [OF this assms(6,7,5)]
    have "runStep E iCanvas (Inr (Some c)) r = Inl (NoSuchBlendMode (blendmode p))"
      using r k here by (simp add: runStep_def mergeManualBlend_def)
    then show ?thesis by (simp add: foldl_runStep_Inl)
  next
    case later
    with Cons.prems(3) have ok: "\<forall>q\<in>set run. \<not> (nativeBlendModes E (blendmode q) = Some False
            \<and> blend E (blendmode q) = None
            \<and> 0 < rwidth (calcLayerRect iCanvas q) \<and> 0 < rheight (calcLayerRect iCanvas q))"
      by simp
    from runStep_ok [OF uni ok]
    obtain c' where c': "runStep E iCanvas (Inr (Some c)) r = Inr (Some c')"
      using r by blast
    have "foldl (runStep E iCanvas) (Inr (Some c')) runs = Inl (NoSuchBlendMode (blendmode p))"
    proof (rule Cons.IH)
      show "\<forall>r\<in>set runs. \<forall>q\<in>set (snd r). capability E q = fst r"
        using Cons.prems(1) by simp
      show "concat (map snd runs) = us @ p # after" by (rule later(2))
      show "\<forall>q\<in>set us. \<not> (nativeBlendModes E (blendmode q) = Some False
            \<and> blend E (blendmode q) = None
            \<and> 0 < rwidth (calcLayerRect iCanvas q) \<and> 0 < rheight (calcLayerRect iCanvas q))"
        using Cons.prems(3) later(1) by simp
    qed
    with c' show ?thesis by simp
  qed
qed

lemma capabilityRuns_keys:
  "\<forall>r\<in>set (capabilityRuns key xs). \<forall>q\<in>set (snd r). key q = fst r"
  using capabilityRuns_uniform [of _ _ key xs] by auto

lemma composite_first_unregistered:
  assumes "\<forall>q\<in>set before. \<not> (nativeBlendModes E (blendmode q) = Some False
            \<and> blend E (blendmode q) = None
            \<and> 0 < rwidth (calcLayerRect iCanvas q) \<and> 0 < rheight (calcLayerRect iCanvas q))"
    and "nativeBlendModes E (blendmode p) = Some False" and "blend E (blendmode p) = None"
    and "0 < rwidth (calcLayerRect iCanvas p)" and "0 < rheight (calcLayerRect iCanvas p)"
  shows "composite E iCanvas (base # before @ p # after) = Inl (NoSuchBlendMode (blendmode p))"
proof -
  have "foldl (runStep E iCanvas) (Inr (Some (singleLayerWithOpacity E iCanvas base)))
      (capabilityRuns (capability E) (before @ p # after)) = Inl (NoSuchBlendMode (blendmode p))"
    by (rule foldl_runStep_first_unregistered [OF capabilityRuns_keys concat_capabilityRuns assms])
  then show ?thesis by (simp add: composite_merge merge_runs)
qed

subsection \<open>Compositing depends on the image canvas only through its size\<close>

lemma transformLayer_size:
  "iwidth a = iwidth b \<Longrightarrow> iheight a = iheight b \<Longrightarrow> transformLayer ctx a p = transformLayer ctx b p"
  by (simp add: transformLayer_def Let_def)

lemma calcLayerRect_size:
  "iwidth a = iwidth b \<Longrightarrow> iheight a = iheight b \<Longrightarrow> calcLayerRect a p = calcLayerRect b p"
  by (simp add: calcLayerRect_def transformRect_def Let_def)

lemma getTransformedLayerData_size:
  "iwidth a = iwidth b \<Longrightarrow> iheight a = iheight b \<Longrightarrow>
   getTransformedLayerData E a p r = getTransformedLayerData E b p r"
  by (simp add: getTransformedLayerData_def transformLayer_size [of a b])

lemma manualBlendLoop_size:
  "iwidth a = iwidth b \<Longrightarrow> iheight a = iheight b \<Longrightarrow>
   manualBlendLoop E a i run bufs = manualBlendLoop E b i run bufs"
proof (induction run arbitrary: i bufs)
  case Nil
  show ?case by (cases bufs) simp
next
  case (Cons p run)
  obtain x y where "bufs = (x, y)" by (cases bufs)
  with Cons show ?case
    by (simp add: calcLayerRect_size [of a b] getTransformedLayerData_size [of a b] Let_def
        split: option.splits)
qed

lemma nativeDraw_size:
  "iwidth a = iwidth b \<Longrightarrow> iheight a = iheight b \<Longrightarrow> nativeDraw E a = nativeDraw E b"
  by (rule ext)+ (simp add: nativeDraw_def transformLayer_size [of a b])

lemma pipeStage_size:
  assumes "iwidth a = iwidth b" "iheight a = iheight b"
  shows "pipeStage E a entry = pipeStage E b entry"
proof (rule ext)
  fix canvas
  show "pipeStage E a entry canvas = pipeStage E b entry canvas"
    using assms
    by (cases entry; cases canvas)
       (simp_all add: mergeNativeBlend_def mergeManualBlend_def nativeDraw_size [of a b]
          manualBlendLoop_size [of a b])
qed

lemma composite_size:
  assumes "iwidth a = iwidth b" "iheight a = iheight b"
  shows "composite E a ld = composite E b ld"
proof -
  have "pipeStage E a = pipeStage E b"
    using pipeStage_size [OF assms] by (rule ext)
  moreover have "singleLayerWithOpacity E a p = singleLayerWithOpacity E b p" for p
    using assms by (simp add: singleLayerWithOpacity_def transformLayer_size [of a b])
  ultimately show ?thesis
    by (simp add: composite_def merge_def split: list.splits)
qed

subsection \<open>The sample environment, evaluated\<close>

lemma demo_pipeline:
  "processLayers demoEnv iCanvas (demoCanvasLayer mode shift) = Inr (Some demoImage)"
  by (simp add: processLayers.simps load.simps demoCanvasLayer_def processImage_def
      passThrough_def loadHtmlCanvas_def)

lemma demo_layerData:
  "getLayerData (demoStack [demoCanvasLayer m1 s1, demoCanvasLayer m2 s2])
     [Some demoImage, Some demoImage] = Inr [demoPlacement m1 s1, demoPlacement m2 s2]"
  by (simp add: getLayerData_def demoStack_def demoCanvasLayer_def demoPlacement_def demoImage_def)

lemma demoStack_composite: "composite E (demoStack ls) ld = composite E demoCanvas ld"
  by (rule composite_size) (simp_all add: demoStack_def demoCanvas_def)

lemma demo_rect_on_canvas:
  "calcLayerRect demoCanvas (demoPlacement mode 0) = \<lparr>rx = 0, ry = 0, rwidth = 1, rheight = 1\<rparr>"
  by (simp add: calcLayerRect_def transformRect_def rectIntersect_def demoCanvas_def
      demoPlacement_def demoImage_def m_identity_def m_translate_def m_rotate_def m_scale_def
      radians_def Let_def)

lemma demo_rect_off_canvas:
  "calcLayerRect demoCanvas (demoPlacement mode 5) = \<lparr>rx = 5, ry = 0, rwidth = 0, rheight = 1\<rparr>"
  by (simp add: calcLayerRect_def transformRect_def rectIntersect_def demoCanvas_def
      demoPlacement_def demoImage_def m_identity_def m_translate_def m_rotate_def m_scale_def
      radians_def Let_def)

lemma demo_seed:
  "singleLayerWithOpacity demoEnv demoCanvas (demoPlacement mode 0) = demoImage"
  by (simp add: singleLayerWithOpacity_def transformLayer_def demoCanvas_def demoPlacement_def
      demoImage_def demoEnv_def newCanvas_def newContext_def putImageData_def Let_def)

lemma demo_data:
  "getTransformedLayerData demoEnv demoCanvas (demoPlacement mode 0)
     \<lparr>rx = 0, ry = 0, rwidth = 1, rheight = 1\<rparr> = [255, 0, 0, 255]"
  by (simp add: getTransformedLayerData_def transformLayer_def demoCanvas_def demoPlacement_def
      demoImage_def demoEnv_def newCanvas_def newContext_def putImageData_def getImageData_def
      ctx_translate_def Let_def)

lemma demo_size: "iwidth demoCanvas = 1" "iheight demoCanvas = 1"
  by (simp_all add: demoCanvas_def)

lemma demo_blank: "createImageData demoEnv c (Suc 0) (Suc 0) = [0, 0, 0, 0]"
  by (simp add: createImageData_def demoEnv_def eval_nat_numeral)

lemma demo_darken:
  "blend demoEnv (blendmode (demoPlacement ''darken'' shift))
     = Some (\<lambda>baseData outData w h opts. map2 min baseData (lo_data opts))"
  by (simp add: demoEnv_def demoPlacement_def)

lemma demo_capability:
  "capability demoEnv (demoPlacement ''source-over'' shift) = Some True"
  "capability demoEnv (demoPlacement ''darken'' shift) = Some False"
  "capability demoEnv (demoPlacement ''hue'' shift) = Some False"
  "capability demoEnv (demoPlacement ''overlay'' shift) = None"
  by (simp_all add: capability_def demoEnv_def demoPlacement_def)

lemma demo_modes:
  "nativeBlendModes demoEnv (blendmode (demoPlacement ''source-over'' shift)) = Some True"
  "nativeBlendModes demoEnv (blendmode (demoPlacement ''darken'' shift)) = Some False"
  "nativeBlendModes demoEnv (blendmode (demoPlacement ''hue'' shift)) = Some False"
  "nativeBlendModes demoEnv (blendmode (demoPlacement ''overlay'' shift)) = None"
  "blend demoEnv (blendmode (demoPlacement ''hue'' shift)) = None"
  by (simp_all add: demoEnv_def demoPlacement_def)

lemma demo_four_pipelines:
  "sequence (map (processLayers demoEnv (demoStack demoLayers)) (layers (demoStack demoLayers)))
     = Inr [Some demoImage, Some demoImage, Some demoImage, Some demoImage]"
  by (simp add: demoStack_def demoLayers_def demo_pipeline)

lemma demo_four_layerData:
  "getLayerData (demoStack demoLayers) [Some demoImage, Some demoImage, Some demoImage, Some demoImage]
     = Inr [demoPlacement ''source-over'' 0, demoPlacement ''hue'' 5, demoPlacement ''hue'' 0,
            demoPlacement ''darken'' 0]"
  by (simp add: getLayerData_def demoStack_def demoLayers_def demoCanvasLayer_def
      demoPlacement_def demoImage_def)

lemma demoStack_rect: "calcLayerRect (demoStack ls) l = calcLayerRect demoCanvas l"
  by (rule calcLayerRect_size) (simp_all add: demoStack_def demoCanvas_def)

subsection \<open>The blend compositor: runs in layer order\<close>

text \<open>
  C1 (as stated, for every layer list) fails: a placement whose blend mode is not a
  key of the capability table is put in no run, so the runs of the pipeline do not
  cover the placements above the base.
\<close>

theorem composite_unknown_mode_counterexample:
  "mergePipe demoEnv demoImage [demoPlacement ''overlay'' 0] = [Seed demoImage]
   \<and> concat (map entryLayers (rev (mergePipe demoEnv demoImage [demoPlacement ''overlay'' 0])))
       \<noteq> [demoPlacement ''overlay'' 0]"
  by (simp add: mergePipe_def pushList_def demo_modes)

text \<open>
  C1, amended. For every layer list of two or more placements in which every blend
  mode above the base is a key of the capability table: the bottommost placement is
  drawn directly, under its transform and with its opacity, on a new canvas of the
  size of the image canvas, to seed the output; the other placements are cut into the
  maximal contiguous runs of equal capability (the runs concatenate to the list, each
  is non-empty and of one capability, neighbouring runs differ; when every mode is
  native there is exactly one run, the whole list; the pipeline has one entry per run
  besides the seed); a native run draws its placements directly one after the other in
  list order, a manual run blends its placements one after the other in list order;
  and the result is the runs applied in order to the seed, each taking the canvas the
  previous one produced. When every mode is native, that is every placement drawn in
  layer order.
\<close>

theorem composite_runs_in_order:
  assumes "rest \<noteq> []"
    and "\<forall>l\<in>set rest. nativeBlendModes E (blendmode l) \<noteq> None"
  shows "concat (map snd (capabilityRuns (capability E) rest)) = rest
    \<and> (\<forall>r\<in>set (capabilityRuns (capability E) rest).
          snd r \<noteq> [] \<and> fst r \<noteq> None
          \<and> (\<forall>l\<in>set (snd r). nativeBlendModes E (blendmode l) = fst r))
    \<and> distinct_adj (map fst (capabilityRuns (capability E) rest))
    \<and> ((\<forall>l\<in>set rest. nativeBlendModes E (blendmode l) = Some True)
         \<longrightarrow> capabilityRuns (capability E) rest = [(Some True, rest)])
    \<and> mergePipe E (singleLayerWithOpacity E iCanvas base) rest =
         rev (runEntries (capabilityRuns (capability E) rest))
         @ [Seed (singleLayerWithOpacity E iCanvas base)]
    \<and> length (mergePipe E (singleLayerWithOpacity E iCanvas base) rest) =
         Suc (length (capabilityRuns (capability E) rest))
    \<and> composite E iCanvas (base # rest) =
         foldl (runStep E iCanvas) (Inr (Some (singleLayerWithOpacity E iCanvas base)))
           (capabilityRuns (capability E) rest)
    \<and> singleLayerWithOpacity E iCanvas base =
         drawPlacement E iCanvas ''source-over'' base
           (newCanvas (iwidth iCanvas) (iheight iCanvas))
    \<and> mergeNativeBlend E iCanvas run (Some c) =
         Inr (Some (fold (\<lambda>layer. drawPlacement E iCanvas (blendmode layer) layer) run c))
    \<and> mergeManualBlend E iCanvas run (Some c) =
         (case manualRun E iCanvas run c of Inl e \<Rightarrow> Inl e | Inr c' \<Rightarrow> Inr (Some c'))
    \<and> composite E iCanvas (base # rest) =
         (case foldl (blendRun E iCanvas)
                 (Inr (drawPlacement E iCanvas ''source-over'' base
                         (newCanvas (iwidth iCanvas) (iheight iCanvas))))
                 (capabilityRuns (capability E) rest) of
            Inl e \<Rightarrow> Inl e
          | Inr c' \<Rightarrow> Inr (Some c'))
    \<and> ((\<forall>l\<in>set rest. nativeBlendModes E (blendmode l) = Some True) \<longrightarrow>
          composite E iCanvas (base # rest) =
            Inr (Some (fold (\<lambda>layer. drawPlacement E iCanvas (blendmode layer) layer) rest
                         (drawPlacement E iCanvas ''source-over'' base
                            (newCanvas (iwidth iCanvas) (iheight iCanvas))))))"
proof -
  let ?runs = "capabilityRuns (capability E) rest"
  have uniform: "snd r \<noteq> [] \<and> fst r \<noteq> None
      \<and> (\<forall>l\<in>set (snd r). nativeBlendModes E (blendmode l) = fst r)" if "r \<in> set ?runs" for r
  proof -
    obtain k run where r: "r = (k, run)" by (cases r)
    from capabilityRuns_uniform [of k run "capability E" rest] that r
    have u: "run \<noteq> []" "\<forall>x\<in>set run. capability E x = k" by simp_all
    then obtain x where x: "x \<in> set run" by (cases run) auto
    with capabilityRuns_subset [OF that] r have "x \<in> set rest" by auto
    with assms(2) x u(2) have "k \<noteq> None" by (auto simp: capability_def)
    with u r show ?thesis by (simp add: capability_def)
  qed
  have known: "\<forall>r\<in>set ?runs. fst r \<noteq> None" using uniform by blast
  have const: "?runs = [(Some True, rest)]"
    if "\<forall>l\<in>set rest. nativeBlendModes E (blendmode l) = Some True"
    using that assms(1) by (intro capabilityRuns_constant) (simp_all add: capability_def)
  have spec: "composite E iCanvas (base # rest) =
      (case foldl (blendRun E iCanvas)
              (Inr (drawPlacement E iCanvas ''source-over'' base
                      (newCanvas (iwidth iCanvas) (iheight iCanvas)))) ?runs of
         Inl e \<Rightarrow> Inl e | Inr c' \<Rightarrow> Inr (Some c'))"
    by (rule composite_blendRuns [OF assms(1)])
  have native: "composite E iCanvas (base # rest) =
      Inr (Some (fold (\<lambda>layer. drawPlacement E iCanvas (blendmode layer) layer) rest
                   (drawPlacement E iCanvas ''source-over'' base
                      (newCanvas (iwidth iCanvas) (iheight iCanvas)))))"
    if "\<forall>l\<in>set rest. nativeBlendModes E (blendmode l) = Some True"
    using spec const [OF that] by (simp add: blendRun_def)
  have part: "concat (map snd ?runs) = rest" "distinct_adj (map fst ?runs)"
    by (simp_all add: concat_capabilityRuns capabilityRuns_distinct_adj)
  have pipe: "mergePipe E (singleLayerWithOpacity E iCanvas base) rest =
      rev (runEntries ?runs) @ [Seed (singleLayerWithOpacity E iCanvas base)]"
    "length (mergePipe E (singleLayerWithOpacity E iCanvas base) rest) = Suc (length ?runs)"
    by (simp_all add: mergePipe_runs length_runEntries [OF known])
  have fold: "composite E iCanvas (base # rest) =
      foldl (runStep E iCanvas) (Inr (Some (singleLayerWithOpacity E iCanvas base))) ?runs"
    by (simp add: composite_merge [OF assms(1)] merge_runs)
  from part uniform const pipe fold spec native
    singleLayerWithOpacity_draw [of E iCanvas base]
    mergeNativeBlend_fold [of E iCanvas run c] mergeManualBlend_run [of E iCanvas run c]
  show ?thesis by blast
qed

theorem composite_runs_in_order_witness:
  "[demoPlacement ''source-over'' 0, demoPlacement ''darken'' 0, demoPlacement ''darken'' 5,
    demoPlacement ''source-over'' 5] \<noteq> []
   \<and> list_all (\<lambda>l. nativeBlendModes demoEnv (blendmode l) \<noteq> None)
        [demoPlacement ''source-over'' 0, demoPlacement ''darken'' 0,
         demoPlacement ''darken'' 5, demoPlacement ''source-over'' 5]
   \<and> composite demoEnv demoCanvas
        [demoPlacement ''source-over'' 0,
         demoPlacement ''source-over'' 0, demoPlacement ''darken'' 0, demoPlacement ''darken'' 5,
         demoPlacement ''source-over'' 5]
      = (case foldl (blendRun demoEnv demoCanvas)
                (Inr (drawPlacement demoEnv demoCanvas ''source-over''
                        (demoPlacement ''source-over'' 0) (newCanvas 1 1)))
                [(Some True, [demoPlacement ''source-over'' 0]),
                 (Some False, [demoPlacement ''darken'' 0, demoPlacement ''darken'' 5]),
                 (Some True, [demoPlacement ''source-over'' 5])] of
           Inl e \<Rightarrow> Inl e
         | Inr c \<Rightarrow> Inr (Some c))"
  using composite_runs_in_order [of "[demoPlacement ''source-over'' 0, demoPlacement ''darken'' 0,
      demoPlacement ''darken'' 5, demoPlacement ''source-over'' 5]" demoEnv demoCanvas
      "demoPlacement ''source-over'' 0"]
  by (auto simp add: demo_capability demo_modes demo_size)

text \<open>
  In a native run the placements are drawn one after the other, in list order, on
  the canvas they are given.
\<close>

lemma mergeNativeBlend_in_order:
  "mergeNativeBlend E iCanvas (xs @ ys) (Some c) =
     mergeNativeBlend E iCanvas ys (Some (fold (nativeDraw E iCanvas) xs c))"
  by (simp add: mergeNativeBlend_def)

subsection \<open>The blend compositor: modes missing from the capability table\<close>

text \<open>
  C9. For every layer list with a placement above the base whose blend mode is not a
  key of the capability table (the lookup is \<^verbatim>\<open>undefined\<close>), no entry of the render
  pipeline contains that placement: the pipeline's placements are exactly those whose
  mode is a key, in order; the composite is the runs applied in order, a run of
  undefined capability being a step that changes nothing and raises nothing; and when
  no mode above the base is a key, the result is the base layer alone.
\<close>

theorem unknown_blendmode_dropped:
  assumes "l \<in> set rest" and "nativeBlendModes E (blendmode l) = None"
  shows "(\<forall>entry\<in>set (mergePipe E canvas rest). l \<notin> set (entryLayers entry))
    \<and> concat (map entryLayers (rev (mergePipe E canvas rest))) =
         filter (\<lambda>l. nativeBlendModes E (blendmode l) \<noteq> None) rest
    \<and> composite E iCanvas (base # rest) =
         foldl (runStep E iCanvas) (Inr (Some (singleLayerWithOpacity E iCanvas base)))
           (capabilityRuns (capability E) rest)
    \<and> runStep E iCanvas (Inr c) (None, run) = Inr c
    \<and> ((\<forall>l'\<in>set rest. nativeBlendModes E (blendmode l') = None) \<longrightarrow>
          composite E iCanvas (base # rest) = Inr (Some (singleLayerWithOpacity E iCanvas base)))"
proof -
  from assms(1) have nonempty: "rest \<noteq> []" by auto
  have fold: "composite E iCanvas (base # rest) =
      foldl (runStep E iCanvas) (Inr (Some (singleLayerWithOpacity E iCanvas base)))
        (capabilityRuns (capability E) rest)"
    by (simp add: composite_merge [OF nonempty] merge_runs)
  have skip: "runStep E iCanvas (Inr c) (None, run) = Inr c"
    by (simp add: runStep_def)
  have layers: "concat (map entryLayers (rev (mergePipe E canvas rest))) =
      filter (\<lambda>l. nativeBlendModes E (blendmode l) \<noteq> None) rest"
    by (simp add: mergePipe_runs layers_runEntries)
  have "l \<notin> set (entryLayers entry)" if "entry \<in> set (mergePipe E canvas rest)" for entry
  proof
    assume "l \<in> set (entryLayers entry)"
    with that have "l \<in> set (concat (map entryLayers (rev (mergePipe E canvas rest))))" by auto
    with layers assms(2) show False by simp
  qed
  moreover have "composite E iCanvas (base # rest) = Inr (Some (singleLayerWithOpacity E iCanvas base))"
    if "\<forall>l'\<in>set rest. nativeBlendModes E (blendmode l') = None"
  proof -
    from assms(1) have ne: "rest \<noteq> []" by auto
    from that have "runEntries (capabilityRuns (capability E) rest) = []"
      by (intro runEntries_all_unknown) (simp add: capability_def)
    then have "foldl (runStep E iCanvas) (Inr (Some (singleLayerWithOpacity E iCanvas base)))
        (capabilityRuns (capability E) rest) = Inr (Some (singleLayerWithOpacity E iCanvas base))"
      using foldl_entryStep_runs [of E iCanvas
          "Inr (Some (singleLayerWithOpacity E iCanvas base))" "capabilityRuns (capability E) rest"]
      by simp
    then show ?thesis by (simp add: composite_merge [OF ne] merge_runs)
  qed
  ultimately show ?thesis using layers fold skip by blast
qed

theorem unknown_blendmode_dropped_witness:
  "demoPlacement ''overlay'' 0 \<in> set [demoPlacement ''source-over'' 0, demoPlacement ''overlay'' 0,
      demoPlacement ''source-over'' 5]
   \<and> nativeBlendModes demoEnv (blendmode (demoPlacement ''overlay'' 0)) = None
   \<and> concat (map entryLayers (rev (mergePipe demoEnv demoImage
        [demoPlacement ''source-over'' 0, demoPlacement ''overlay'' 0,
         demoPlacement ''source-over'' 5])))
      = [demoPlacement ''source-over'' 0, demoPlacement ''source-over'' 5]"
  using unknown_blendmode_dropped [of "demoPlacement ''overlay'' 0"
      "[demoPlacement ''source-over'' 0, demoPlacement ''overlay'' 0, demoPlacement ''source-over'' 5]"
      demoEnv demoImage demoCanvas "demoPlacement ''source-over'' 0"]
  by (auto simp add: demo_modes)

subsection \<open>The blend compositor: unregistered blend modes\<close>

text \<open>
  C2 (as stated, for every placement of a manual run) fails: a placement whose
  rectangle has zero area is skipped before its blend function is looked up, so an
  unregistered mode on such a placement raises nothing and a canvas is produced.
\<close>

theorem zero_area_unregistered_counterexample:
  "nativeBlendModes demoEnv (blendmode (demoPlacement ''hue'' 5)) = Some False
   \<and> blend demoEnv (blendmode (demoPlacement ''hue'' 5)) = None
   \<and> composite demoEnv demoCanvas
       [demoPlacement ''source-over'' 0, demoPlacement ''darken'' 0, demoPlacement ''hue'' 5]
     = Inr (Some demoImage)"
  by (simp add: demo_modes composite_merge merge_runs demo_capability runStep_def demo_seed
      mergeManualBlend_def demo_rect_off_canvas demo_rect_on_canvas demo_data
      demo_size demo_blank demo_darken getImageData_def putImageData_def demoImage_def)

text \<open>
  C2, amended. For every render in which a manual run contains a placement whose
  bounding rectangle has non-zero area and whose blend mode has no function in the
  manual blend registry, rendering raises NoSuchBlendMode immediately: the error is
  that of the first such placement in layer order, whatever comes after it (the result
  is the same with everything after it cut off), and no canvas is produced, neither by
  the compositor nor, when the layer pipelines have given these placements, by
  \<^verbatim>\<open>render\<close>. Every placement of zero area is skipped before its blend mode is
  looked up.
\<close>

theorem unregistered_blendmode_raises:
  assumes "\<forall>q\<in>set before. \<not> (nativeBlendModes E (blendmode q) = Some False
            \<and> blend E (blendmode q) = None
            \<and> 0 < rwidth (calcLayerRect iCanvas q) \<and> 0 < rheight (calcLayerRect iCanvas q))"
    and "nativeBlendModes E (blendmode p) = Some False" and "blend E (blendmode p) = None"
    and "0 < rwidth (calcLayerRect iCanvas p)" and "0 < rheight (calcLayerRect iCanvas p)"
  shows "composite E iCanvas (base # before @ p # after) = Inl (NoSuchBlendMode (blendmode p))
    \<and> composite E iCanvas (base # before @ p # after) = composite E iCanvas (base # before @ [p])
    \<and> (sequence (map (processLayers E iCanvas) (layers iCanvas)) = Inr layerImages
        \<and> getLayerData iCanvas layerImages = Inr (base # before @ p # after)
       \<longrightarrow> render E iCanvas True = Inl (NoSuchBlendMode (blendmode p)))
    \<and> (\<not> (0 < rwidth (calcLayerRect iCanvas q) \<and> 0 < rheight (calcLayerRect iCanvas q))
       \<longrightarrow> manualBlendLoop E iCanvas i (q # run) bufs = manualBlendLoop E iCanvas (i + 1) run bufs)"
proof -
  have raised: "composite E iCanvas (base # before @ p # ys) = Inl (NoSuchBlendMode (blendmode p))"
    for ys
    by (rule composite_first_unregistered [OF assms])
  have same: "composite E iCanvas (base # before @ p # after) = composite E iCanvas (base # before @ [p])"
    by (simp add: raised)
  have top: "render E iCanvas True = Inl (NoSuchBlendMode (blendmode p))"
    if "sequence (map (processLayers E iCanvas) (layers iCanvas)) = Inr layerImages"
      "getLayerData iCanvas layerImages = Inr (base # before @ p # after)"
    using that raised [of after] by (simp add: render.simps)
  have skip: "manualBlendLoop E iCanvas i (q # run) bufs = manualBlendLoop E iCanvas (i + 1) run bufs"
    if "\<not> (0 < rwidth (calcLayerRect iCanvas q) \<and> 0 < rheight (calcLayerRect iCanvas q))"
    using that by (cases bufs) (auto simp: Let_def)
  from raised [of after] same top skip show ?thesis by blast
qed

theorem unregistered_blendmode_raises_witness:
  "list_all (\<lambda>q. \<not> (nativeBlendModes demoEnv (blendmode q) = Some False
            \<and> blend demoEnv (blendmode q) = None
            \<and> 0 < rwidth (calcLayerRect (demoStack demoLayers) q)
            \<and> 0 < rheight (calcLayerRect (demoStack demoLayers) q)))
     [demoPlacement ''hue'' 5]
   \<and> nativeBlendModes demoEnv (blendmode (demoPlacement ''hue'' 0)) = Some False
   \<and> blend demoEnv (blendmode (demoPlacement ''hue'' 0)) = None
   \<and> 0 < rwidth (calcLayerRect (demoStack demoLayers) (demoPlacement ''hue'' 0))
   \<and> 0 < rheight (calcLayerRect (demoStack demoLayers) (demoPlacement ''hue'' 0))
   \<and> sequence (map (processLayers demoEnv (demoStack demoLayers)) (layers (demoStack demoLayers)))
       = Inr [Some demoImage, Some demoImage, Some demoImage, Some demoImage]
   \<and> getLayerData (demoStack demoLayers)
        [Some demoImage, Some demoImage, Some demoImage, Some demoImage]
       = Inr (demoPlacement ''source-over'' 0
              # [demoPlacement ''hue'' 5] @ demoPlacement ''hue'' 0 # [demoPlacement ''darken'' 0])
   \<and> composite demoEnv (demoStack demoLayers)
        (demoPlacement ''source-over'' 0
         # [demoPlacement ''hue'' 5] @ demoPlacement ''hue'' 0 # [demoPlacement ''darken'' 0])
       = Inl (NoSuchBlendMode ''hue'')
   \<and> render demoEnv (demoStack demoLayers) True = Inl (NoSuchBlendMode ''hue'')"
  using unregistered_blendmode_raises [where before = "[demoPlacement ''hue'' 5]"
      and E = demoEnv and iCanvas = "demoStack demoLayers" and p = "demoPlacement ''hue'' 0"
      and base = "demoPlacement ''source-over'' 0" and after = "[demoPlacement ''darken'' 0]"
      and layerImages = "[Some demoImage, Some demoImage, Some demoImage, Some demoImage]"]
  by (simp add: demo_modes demoStack_rect demo_rect_on_canvas demo_rect_off_canvas
      demo_four_pipelines demo_four_layerData)
     (simp add: demoPlacement_def)

text \<open>
  Every list with such a placement has a first one, so the error is raised whenever a
  manual run contains a placement of non-zero area without a blend function.
\<close>

lemma composite_some_unregistered:
  assumes "l \<in> set rest"
    and "nativeBlendModes E (blendmode l) = Some False" and "blend E (blendmode l) = None"
    and "0 < rwidth (calcLayerRect iCanvas l)" and "0 < rheight (calcLayerRect iCanvas l)"
  shows "\<exists>before p after. rest = before @ p # after
    \<and> blend E (blendmode p) = None
    \<and> composite E iCanvas (base # rest) = Inl (NoSuchBlendMode (blendmode p))"
proof -
  let ?P = "\<lambda>q. nativeBlendModes E (blendmode q) = Some False \<and> blend E (blendmode q) = None
      \<and> 0 < rwidth (calcLayerRect iCanvas q) \<and> 0 < rheight (calcLayerRect iCanvas q)"
  from assms have "\<exists>q\<in>set rest. ?P q" by blast
  then obtain before p after where
    split: "rest = before @ p # after" "?P p" "\<forall>q\<in>set before. \<not> ?P q"
    by (rule split_list_first_propE)
  from composite_first_unregistered [where before = before and p = p and after = after
      and base = base and E = E and iCanvas = iCanvas, OF split(3)] split(2)
  have "composite E iCanvas (base # before @ p # after) = Inl (NoSuchBlendMode (blendmode p))"
    by simp
  with split show ?thesis by auto
qed

subsection \<open>The blend compositor: placements of zero area\<close>

text \<open>
  A manual run skips a placement of zero area without looking up its blend function.
  When it skips every placement, the loop returns its two buffers as they were, and
  the run then puts \<^verbatim>\<open>outData\<close>, the buffer it made with \<^verbatim>\<open>createImageData\<close>, on the
  canvas.
\<close>

lemma manualBlendLoop_all_skipped:
  "\<forall>l\<in>set run. \<not> (0 < rwidth (calcLayerRect iCanvas l) \<and> 0 < rheight (calcLayerRect iCanvas l))
   \<Longrightarrow> manualBlendLoop E iCanvas i run (baseData, outData) = Inr (baseData, outData)"
  by (induction run arbitrary: i) (auto simp add: Let_def)

lemma mergeManualBlend_all_skipped:
  "\<forall>l\<in>set run. \<not> (0 < rwidth (calcLayerRect iCanvas l) \<and> 0 < rheight (calcLayerRect iCanvas l))
   \<Longrightarrow> mergeManualBlend E iCanvas run (Some c) =
         Inr (Some (c\<lparr>pixels := createImageData E c (iwidth iCanvas) (iheight iCanvas)\<rparr>))"
  by (simp add: mergeManualBlend_def manualBlendLoop_all_skipped putImageData_def)

text \<open>
  C4. The claim is that a manual run in which every placement has a zero-area
  rectangle leaves the pixels of its input unchanged. On a one-pixel red canvas, with a
  single placement translated off the canvas, the run returns a transparent black
  pixel instead.
\<close>

theorem mergeManualBlend_zero_area_clears_canvas:
  "mergeManualBlend demoEnv demoCanvas [demoPlacement ''darken'' 5] (Some demoImage)
     = Inr (Some (demoImage\<lparr>pixels := [0, 0, 0, 0]\<rparr>))"
  by (simp add: mergeManualBlend_def demo_rect_off_canvas demo_size demo_blank
      putImageData_def)

text \<open>
  And a placement of zero area at the head of a run is not the same as no placement:
  the next placement is blended onto the empty buffer instead of the canvas.
\<close>

lemma mergeManualBlend_leading_zero_area:
  "mergeManualBlend demoEnv demoCanvas [demoPlacement ''darken'' 5, demoPlacement ''darken'' 0]
     (Some demoImage) = Inr (Some (demoImage\<lparr>pixels := [0, 0, 0, 0]\<rparr>))
   \<and> mergeManualBlend demoEnv demoCanvas [demoPlacement ''darken'' 0] (Some demoImage)
     = Inr (Some (demoImage\<lparr>pixels := [255, 0, 0, 255]\<rparr>))"
  by (simp add: mergeManualBlend_def demo_rect_off_canvas demo_rect_on_canvas demo_data
      demo_size demo_blank demo_darken getImageData_def putImageData_def demoImage_def)

text \<open>
  The same from the top level: a canvas of two layers, the upper one translated off
  the canvas with a blend mode that the backend does not have, renders to a
  transparent black pixel; the base layer is lost.
\<close>

lemma render_zero_area_clears:
  "render demoEnv (demoStack [demoCanvasLayer ''source-over'' 0, demoCanvasLayer ''darken'' 5]) True
     = Inr (Called (Some (demoImage\<lparr>pixels := [0, 0, 0, 0]\<rparr>)))"
proof -
  have "composite demoEnv demoCanvas [demoPlacement ''source-over'' 0, demoPlacement ''darken'' 5]
      = Inr (Some (demoImage\<lparr>pixels := [0, 0, 0, 0]\<rparr>))"
    by (simp add: composite_merge merge_runs demo_capability runStep_def demo_seed
        mergeManualBlend_def demo_rect_off_canvas demo_size demo_blank putImageData_def)
  moreover have "layers (demoStack [demoCanvasLayer ''source-over'' 0, demoCanvasLayer ''darken'' 5])
      = [demoCanvasLayer ''source-over'' 0, demoCanvasLayer ''darken'' 5]"
    by (simp add: demoStack_def)
  ultimately show ?thesis
    by (simp add: render.simps demo_pipeline demo_layerData demoStack_composite)
qed

end
